theory Spec2Isabelle
  imports Complex_Main
begin

section \<open>Floating-point values\<close>

text \<open>
  The data frames of \<^verbatim>\<open>dashboard.py\<close> hold float64 cells. A cell is modelled as an
  exact real number, one of the two infinities, or NaN (pandas' marker for a missing
  value). Rounding, overflow and the sign of zero are not modelled: arithmetic on finite
  values is exact, and a zero divisor counts as positive zero. Where a theorem below gives
  the value of a finite cell, float64 gives that value up to the rounding of each
  operation; which cells are NaN or infinite, and which cells an operation reads, does not
  depend on rounding.
\<close>

datatype f64 = Fin real | PInf | NInf | NaN

fun isna :: "f64 \<Rightarrow> bool" where
  "isna NaN = True"
| "isna _ = False"

fun fneg :: "f64 \<Rightarrow> f64" where
  "fneg (Fin a) = Fin (- a)"
| "fneg PInf = NInf"
| "fneg NInf = PInf"
| "fneg NaN = NaN"

fun fadd :: "f64 \<Rightarrow> f64 \<Rightarrow> f64" where
  "fadd NaN _ = NaN"
| "fadd _ NaN = NaN"
| "fadd (Fin a) (Fin b) = Fin (a + b)"
| "fadd PInf NInf = NaN"
| "fadd NInf PInf = NaN"
| "fadd PInf _ = PInf"
| "fadd _ PInf = PInf"
| "fadd NInf _ = NInf"
| "fadd _ NInf = NInf"

definition fsub :: "f64 \<Rightarrow> f64 \<Rightarrow> f64" where
  "fsub x y = fadd x (fneg y)"

text \<open>An infinity of the sign of \<open>s\<close>; the product of an infinity and zero is NaN.\<close>

definition inf_of_sign :: "real \<Rightarrow> f64" where
  "inf_of_sign s = (if s = 0 then NaN else if 0 < s then PInf else NInf)"

fun fmul :: "f64 \<Rightarrow> f64 \<Rightarrow> f64" where
  "fmul NaN _ = NaN"
| "fmul _ NaN = NaN"
| "fmul (Fin a) (Fin b) = Fin (a * b)"
| "fmul (Fin a) PInf = inf_of_sign a"
| "fmul (Fin a) NInf = inf_of_sign (- a)"
| "fmul PInf (Fin b) = inf_of_sign b"
| "fmul NInf (Fin b) = inf_of_sign (- b)"
| "fmul PInf PInf = PInf"
| "fmul NInf NInf = PInf"
| "fmul PInf NInf = NInf"
| "fmul NInf PInf = NInf"

text \<open>
  numpy's float division does not raise: a nonzero value over zero is an infinity,
  zero over zero is NaN.
\<close>

fun fdiv :: "f64 \<Rightarrow> f64 \<Rightarrow> f64" where
  "fdiv NaN _ = NaN"
| "fdiv _ NaN = NaN"
| "fdiv (Fin a) (Fin b) = (if b = 0 then inf_of_sign a else Fin (a / b))"
| "fdiv (Fin a) _ = Fin 0"
| "fdiv PInf (Fin b) = (if 0 \<le> b then PInf else NInf)"
| "fdiv NInf (Fin b) = (if 0 \<le> b then NInf else PInf)"
| "fdiv _ _ = NaN"

text \<open>\<open>x > y\<close> on floats: every comparison with NaN is false.\<close>

fun fgt :: "f64 \<Rightarrow> f64 \<Rightarrow> bool" where
  "fgt NaN _ = False"
| "fgt _ NaN = False"
| "fgt (Fin a) (Fin b) = (b < a)"
| "fgt PInf PInf = False"
| "fgt PInf _ = True"
| "fgt _ PInf = False"
| "fgt NInf _ = False"
| "fgt _ NInf = True"

fun fsqrt :: "f64 \<Rightarrow> f64" where
  "fsqrt (Fin a) = (if a < 0 then NaN else Fin (sqrt a))"
| "fsqrt PInf = PInf"
| "fsqrt _ = NaN"

section \<open>Data frames\<close>

text \<open>
  A data frame has a row index (the trading dates, here day numbers) and named columns,
  each holding one cell per index entry. Column order matters (it is the plotting
  order), so the columns are an association list.
\<close>

type_synonym date = nat

record dataframe =
  index :: "date list"
  columns :: "(string \<times> f64 list) list"

definition wf_df :: "dataframe \<Rightarrow> bool" where
  "wf_df df = (distinct (map fst (columns df)) \<and>
     list_all (\<lambda>nc. length (snd nc) = length (index df)) (columns df))"

text \<open>\<^verbatim>\<open>df.empty\<close>: some axis has length 0.\<close>

definition empty_df :: "dataframe \<Rightarrow> bool" where
  "empty_df df = (index df = [] \<or> columns df = [])"

definition map_columns :: "(f64 list \<Rightarrow> f64 list) \<Rightarrow> dataframe \<Rightarrow> dataframe" where
  "map_columns f df = df\<lparr>columns := map (\<lambda>nc. (fst nc, f (snd nc))) (columns df)\<rparr>"

section \<open>Returns (lines 76 and 77)\<close>

text \<open>
  \<^verbatim>\<open>pct_change()\<close> computes \<^verbatim>\<open>data / data.shift(1) - 1\<close> column by column. Up to
  pandas 2.x its default \<^verbatim>\<open>fill_method='pad'\<close> first carries the latest present value
  forward over missing cells; from pandas 3 nothing is filled. The source pins no pandas
  version, so the fill method is a parameter of the model.
\<close>

datatype fill_method = Pad | NoFill

fun ffill_from :: "f64 \<Rightarrow> f64 list \<Rightarrow> f64 list" where
  "ffill_from prev [] = []"
| "ffill_from prev (x # xs) =
     (let y = (if isna x then prev else x) in y # ffill_from y xs)"

definition ffill :: "f64 list \<Rightarrow> f64 list" where
  "ffill xs = ffill_from NaN xs"

definition shift1 :: "f64 list \<Rightarrow> f64 list" where
  "shift1 xs = (if xs = [] then [] else NaN # butlast xs)"

definition pct_change_col :: "fill_method \<Rightarrow> f64 list \<Rightarrow> f64 list" where
  "pct_change_col fm xs =
     (let data = (case fm of Pad \<Rightarrow> ffill xs | NoFill \<Rightarrow> xs)
      in map2 (\<lambda>d s. fsub (fdiv d s) (Fin 1)) data (shift1 data))"

definition fillna :: "f64 \<Rightarrow> f64 list \<Rightarrow> f64 list" where
  "fillna v xs = map (\<lambda>x. if isna x then v else x) xs"

text \<open>Line 76: \<^verbatim>\<open>pct_df = price_df.pct_change().fillna(0)\<close>, on one column and on the frame.\<close>

definition pct_col :: "fill_method \<Rightarrow> f64 list \<Rightarrow> f64 list" where
  "pct_col fm xs = fillna (Fin 0) (pct_change_col fm xs)"

definition pct_df :: "fill_method \<Rightarrow> dataframe \<Rightarrow> dataframe" where
  "pct_df fm price_df = map_columns (pct_col fm) price_df"

text \<open>
  \<^verbatim>\<open>cumprod()\<close> skips missing cells: they count as 1 in the running product and are
  missing again in the result.
\<close>

fun np_cumprod_from :: "f64 \<Rightarrow> f64 list \<Rightarrow> f64 list" where
  "np_cumprod_from acc [] = []"
| "np_cumprod_from acc (x # xs) = fmul acc x # np_cumprod_from (fmul acc x) xs"

definition cumprod :: "f64 list \<Rightarrow> f64 list" where
  "cumprod xs =
     map2 (\<lambda>x r. if isna x then NaN else r) xs
       (np_cumprod_from (Fin 1) (map (\<lambda>x. if isna x then Fin 1 else x) xs))"

text \<open>Line 77: \<^verbatim>\<open>total_pct_df = ((1 + pct_df).cumprod() - 1) * 100\<close>.\<close>

definition total_pct_col :: "f64 list \<Rightarrow> f64 list" where
  "total_pct_col rs =
     map (\<lambda>x. fmul x (Fin 100))
       (map (\<lambda>x. fsub x (Fin 1)) (cumprod (map (\<lambda>r. fadd (Fin 1) r) rs)))"

definition total_pct_df :: "fill_method \<Rightarrow> dataframe \<Rightarrow> dataframe" where
  "total_pct_df fm price_df = map_columns total_pct_col (pct_df fm price_df)"

section \<open>Cross-sectional statistics (lines 79 to 88)\<close>

datatype error = KeyError string | IndexError | TypeError

text \<open>\<^verbatim>\<open>df[name]\<close> raises KeyError for an unknown column.\<close>

definition getitem :: "dataframe \<Rightarrow> string \<Rightarrow> error + f64 list" where
  "getitem df name =
     (case map_of (columns df) name of None \<Rightarrow> Inl (KeyError name) | Some c \<Rightarrow> Inr c)"

text \<open>
  \<^verbatim>\<open>df[name] = values\<close> overwrites the column of that name, or appends a new last
  column.
\<close>

definition setitem :: "string \<Rightarrow> f64 list \<Rightarrow> dataframe \<Rightarrow> dataframe" where
  "setitem name vals df =
     (if name \<in> set (map fst (columns df))
      then df\<lparr>columns := map (\<lambda>nc. if fst nc = name then (name, vals) else nc) (columns df)\<rparr>
      else df\<lparr>columns := columns df @ [(name, vals)]\<rparr>)"

text \<open>\<^verbatim>\<open>df.drop(columns=labels)\<close> returns a new frame; a label that is no column raises.\<close>

definition drop_columns :: "string list \<Rightarrow> dataframe \<Rightarrow> error + dataframe" where
  "drop_columns labels df =
     (case filter (\<lambda>l. l \<notin> set (map fst (columns df))) labels of
        l # _ \<Rightarrow> Inl (KeyError l)
      | [] \<Rightarrow> Inr (df\<lparr>columns := filter (\<lambda>nc. fst nc \<notin> set labels) (columns df)\<rparr>))"

definition row_at :: "dataframe \<Rightarrow> nat \<Rightarrow> f64 list" where
  "row_at df i = map (\<lambda>nc. snd nc ! i) (columns df)"

definition fsum :: "f64 list \<Rightarrow> f64" where
  "fsum xs = foldl fadd (Fin 0) xs"

definition dropna :: "f64 list \<Rightarrow> f64 list" where
  "dropna xs = filter (\<lambda>x. \<not> isna x) xs"

text \<open>
  The reductions \<^verbatim>\<open>mean\<close>, \<^verbatim>\<open>median\<close> and \<^verbatim>\<open>std\<close> skip missing cells
  (\<^verbatim>\<open>skipna=True\<close>); over no cell at all the result is NaN.
\<close>

definition nanmean :: "f64 list \<Rightarrow> f64" where
  "nanmean xs =
     (let vals = dropna xs; count = length vals
      in if count = 0 then NaN else fdiv (fsum vals) (Fin (real count)))"

text \<open>The order of the cells that are not NaN, for sorting.\<close>

fun fle :: "f64 \<Rightarrow> f64 \<Rightarrow> bool" where
  "fle NaN _ = False"
| "fle _ NaN = False"
| "fle (Fin a) (Fin b) = (a \<le> b)"
| "fle NInf _ = True"
| "fle _ PInf = True"
| "fle _ _ = False"

fun finsert :: "f64 \<Rightarrow> f64 list \<Rightarrow> f64 list" where
  "finsert x [] = [x]"
| "finsert x (y # ys) = (if fle x y then x # y # ys else y # finsert x ys)"

definition fsort :: "f64 list \<Rightarrow> f64 list" where
  "fsort xs = foldr finsert xs []"

definition nanmedian :: "f64 list \<Rightarrow> f64" where
  "nanmedian xs =
     (let vals = fsort (dropna xs); n = length vals
      in if n = 0 then NaN
         else if odd n then vals ! (n div 2)
         else fdiv (fadd (vals ! (n div 2 - 1)) (vals ! (n div 2))) (Fin 2))"

text \<open>
  \<^verbatim>\<open>std\<close> has the parameter \<^verbatim>\<open>ddof\<close> (delta degrees of freedom): the sum of squared
  deviations is divided by \<open>count - ddof\<close>, and the result is NaN when
  \<open>count \<le> ddof\<close>. The source calls \<^verbatim>\<open>.std(axis=1)\<close>, so \<open>ddof\<close> has pandas' default 1.
\<close>

definition nanvar :: "nat \<Rightarrow> f64 list \<Rightarrow> f64" where
  "nanvar ddof xs =
     (let vals = dropna xs; count = length vals
      in if count \<le> ddof then NaN
         else let avg = fdiv (fsum vals) (Fin (real count));
                  sqr = map (\<lambda>x. fmul (fsub avg x) (fsub avg x)) vals
              in fdiv (fsum sqr) (Fin (real (count - ddof))))"

definition nanstd :: "nat \<Rightarrow> f64 list \<Rightarrow> f64" where
  "nanstd ddof xs = fsqrt (nanvar ddof xs)"

text \<open>A reduction with \<^verbatim>\<open>axis=1\<close>: one value per row, over the cells of all columns.\<close>

definition reduce_axis1 :: "(f64 list \<Rightarrow> f64) \<Rightarrow> dataframe \<Rightarrow> f64 list" where
  "reduce_axis1 f df = map (\<lambda>i. f (row_at df i)) [0..<length (index df)]"

definition mean_axis1 :: "dataframe \<Rightarrow> f64 list" where
  "mean_axis1 df = reduce_axis1 nanmean df"

definition median_axis1 :: "dataframe \<Rightarrow> f64 list" where
  "median_axis1 df = reduce_axis1 nanmedian df"

definition std_axis1 :: "dataframe \<Rightarrow> f64 list" where
  "std_axis1 df = reduce_axis1 (nanstd 1) df"

text \<open>
  Lines 79 to 88. The source mutates \<^verbatim>\<open>total_pct_df\<close> in place; the model passes the
  frame along. The argument is the frame of line 77.
\<close>

definition total_pct_df_stats :: "dataframe \<Rightarrow> error + dataframe" where
  "total_pct_df_stats df0 =
     (let df1 = setitem ''mean_pct_chg'' (mean_axis1 df0) df0
      in case drop_columns [''mean_pct_chg''] df1 of
           Inl e \<Rightarrow> Inl e
         | Inr d1 \<Rightarrow>
             let df2 = setitem ''median_pct_change'' (median_axis1 d1) df1
             in case drop_columns [''mean_pct_chg'', ''median_pct_change''] df2 of
                  Inl e \<Rightarrow> Inl e
                | Inr d2 \<Rightarrow>
                    let df3 = setitem ''std'' (std_axis1 d2) df2
                    in case getitem df3 ''std'' of
                         Inl e \<Rightarrow> Inl e
                       | Inr s \<Rightarrow> Inr (setitem ''2std'' (map (\<lambda>x. fmul (Fin 2) x) s) df3))"

section \<open>Filter and chart (lines 69 to 71 and 90 to 185)\<close>

datatype filter_option = AllStocks | AboveMean | AboveMedian | AboveStd | Above2Std

datatype line_style = Opacity real | DotLine nat string

record trace =
  trace_name :: string
  trace_x :: "date list"
  trace_y :: "f64 list"
  trace_style :: line_style

text \<open>What one run of the script puts on the page after the download.\<close>

record page =
  warning :: "string option"
  table :: "dataframe option"
  chart :: "trace list option"

definition stats_cols :: "string list" where
  "stats_cols = [''mean_pct_chg'', ''median_pct_change'', ''std'', ''2std'']"

definition stock_cols :: "dataframe \<Rightarrow> string list" where
  "stock_cols df = filter (\<lambda>c. c \<notin> set stats_cols) (map fst (columns df))"

text \<open>\<^verbatim>\<open>df.iloc[-1]\<close>: the last row as a series keyed by column name.\<close>

definition iloc_last :: "dataframe \<Rightarrow> error + (string \<times> f64) list" where
  "iloc_last df =
     (if index df = [] then Inl IndexError
      else Inr (map (\<lambda>nc. (fst nc, snd nc ! (length (index df) - 1))) (columns df)))"

definition series_get :: "(string \<times> f64) list \<Rightarrow> string \<Rightarrow> error + f64" where
  "series_get s name =
     (case map_of s name of None \<Rightarrow> Inl (KeyError name) | Some v \<Rightarrow> Inr v)"

definition gt_last :: "(string \<times> f64) list \<Rightarrow> string \<Rightarrow> string \<Rightarrow> error + bool" where
  "gt_last last_vals a b =
     (case series_get last_vals a of
        Inl e \<Rightarrow> Inl e
      | Inr x \<Rightarrow> (case series_get last_vals b of Inl e \<Rightarrow> Inl e | Inr y \<Rightarrow> Inr (fgt x y)))"

text \<open>Lines 122 to 131: the value of \<^verbatim>\<open>show\<close> for one stock column.\<close>

fun show_col :: "filter_option \<Rightarrow> (string \<times> f64) list \<Rightarrow> string \<Rightarrow> error + bool" where
  "show_col AboveMean last_vals col = gt_last last_vals col ''mean_pct_chg''"
| "show_col AboveMedian last_vals col = gt_last last_vals col ''median_pct_change''"
| "show_col AboveStd last_vals col = gt_last last_vals col ''std''"
| "show_col Above2Std last_vals col = gt_last last_vals col ''2std''"
| "show_col AllStocks last_vals col = Inr True"

definition scatter :: "dataframe \<Rightarrow> string \<Rightarrow> string \<Rightarrow> line_style \<Rightarrow> error + trace" where
  "scatter df col nm sty =
     (case getitem df col of
        Inl e \<Rightarrow> Inl e
      | Inr y \<Rightarrow> Inr \<lparr>trace_name = nm, trace_x = index df, trace_y = y, trace_style = sty\<rparr>)"

text \<open>Lines 121 to 141: the loop over the stock columns, adding traces to the figure.\<close>

fun stock_lines ::
  "filter_option \<Rightarrow> dataframe \<Rightarrow> (string \<times> f64) list \<Rightarrow> string list \<Rightarrow> trace list
     \<Rightarrow> error + trace list" where
  "stock_lines fo df last_vals [] fig = Inr fig"
| "stock_lines fo df last_vals (col # cols) fig =
     (case show_col fo last_vals col of
        Inl e \<Rightarrow> Inl e
      | Inr sh \<Rightarrow>
          if sh then
            (case scatter df col col (Opacity (6 / 10)) of
               Inl e \<Rightarrow> Inl e
             | Inr t \<Rightarrow> stock_lines fo df last_vals cols (fig @ [t]))
          else stock_lines fo df last_vals cols fig)"

text \<open>Lines 146 to 172: the four reference lines, added one after the other.\<close>

definition reference_specs :: "(string \<times> string \<times> line_style) list" where
  "reference_specs =
     [(''mean_pct_chg'', ''Mean'', DotLine 3 ''black''),
      (''median_pct_change'', ''Median'', DotLine 3 ''blue''),
      (''std'', ''Std Dev'', DotLine 3 ''red''),
      (''2std'', ''2 Std Dev'', DotLine 3 ''purple'')]"

fun reference_lines ::
  "dataframe \<Rightarrow> (string \<times> string \<times> line_style) list \<Rightarrow> trace list \<Rightarrow> error + trace list" where
  "reference_lines df [] fig = Inr fig"
| "reference_lines df ((col, nm, sty) # rest) fig =
     (case scatter df col nm sty of
        Inl e \<Rightarrow> Inl e
      | Inr t \<Rightarrow> reference_lines df rest (fig @ [t]))"

text \<open>\<^verbatim>\<open>df.tail(50)\<close>: the last 50 rows.\<close>

definition tail50 :: "dataframe \<Rightarrow> dataframe" where
  "tail50 df =
     \<lparr>index = drop (length (index df) - 50) (index df),
      columns = map (\<lambda>nc. (fst nc, drop (length (snd nc) - 50) (snd nc))) (columns df)\<rparr>"

text \<open>
  The script from line 69 on, given the downloaded \<^verbatim>\<open>price_df\<close>, the state of the
  check box and the chosen filter. \<^verbatim>\<open>st.stop()\<close> ends the run.
\<close>

definition run :: "fill_method \<Rightarrow> bool \<Rightarrow> filter_option \<Rightarrow> dataframe \<Rightarrow> error + page" where
  "run fm show_table fo price_df =
     (if empty_df price_df
      then Inr \<lparr>warning = Some ''No price data available for selected date range.'',
                table = None, chart = None\<rparr>
      else
        case total_pct_df_stats (total_pct_df fm price_df) of
          Inl e \<Rightarrow> Inl e
        | Inr df \<Rightarrow>
            (case iloc_last df of
               Inl e \<Rightarrow> Inl e
             | Inr last_vals \<Rightarrow>
                 (case stock_lines fo df last_vals (stock_cols df) [] of
                    Inl e \<Rightarrow> Inl e
                  | Inr fig \<Rightarrow>
                      (case reference_lines df reference_specs fig of
                         Inl e \<Rightarrow> Inl e
                       | Inr fig' \<Rightarrow>
                           Inr \<lparr>warning = None,
                                table = (if show_table then Some (tail50 df) else None),
                                chart = Some fig'\<rparr>))))"

section \<open>Stock list and groups (lines 31 to 60)\<close>

text \<open>
  A row of \<^verbatim>\<open>stock_list.csv\<close> (its first column is the index and holds no data). A
  cell of a text column such as \<^verbatim>\<open>SYMBOL\<close> is text, or a number: NaN when the cell is
  missing, and the 0 that \<^verbatim>\<open>fillna(0)\<close> can put there. The script names the columns
  \<^verbatim>\<open>SYMBOL\<close> and \<^verbatim>\<open>market_cap\<close>; the cells of the file's other columns are kept by
  kind, since \<^verbatim>\<open>fillna\<close> works on all of them.
\<close>

datatype obj = Str string | Num f64

record stock =
  SYMBOL :: obj
  market_cap :: f64
  other_text :: "obj list"
  other_numeric :: "f64 list"

fun missing_text :: "obj \<Rightarrow> bool" where
  "missing_text (Num x) = isna x"
| "missing_text (Str _) = False"

text \<open>
  Line 32: \<^verbatim>\<open>fillna(0)\<close> fills the missing cells of every column. What it does to a
  missing cell of a text column depends on the column's dtype, which the source does not
  fix: with dtype \<^verbatim>\<open>object\<close> (the default up to pandas 2.x) the cell becomes the number
  0; with the string dtype (the default from pandas 3) the value 0 is refused and
  \<^verbatim>\<open>fillna\<close> raises TypeError. The dtype is a parameter of the model.
\<close>

datatype text_dtype = ObjectDtype | StringDtype

definition fillna_text :: "text_dtype \<Rightarrow> obj \<Rightarrow> error + obj" where
  "fillna_text td c =
     (if missing_text c
      then (case td of ObjectDtype \<Rightarrow> Inr (Num (Fin 0)) | StringDtype \<Rightarrow> Inl TypeError)
      else Inr c)"

fun fillna_texts :: "text_dtype \<Rightarrow> obj list \<Rightarrow> error + obj list" where
  "fillna_texts td [] = Inr []"
| "fillna_texts td (c # cs) =
     (case fillna_text td c of
        Inl e \<Rightarrow> Inl e
      | Inr c' \<Rightarrow> (case fillna_texts td cs of Inl e \<Rightarrow> Inl e | Inr cs' \<Rightarrow> Inr (c' # cs')))"

definition fillna_row :: "text_dtype \<Rightarrow> stock \<Rightarrow> error + stock" where
  "fillna_row td r =
     (case fillna_text td (SYMBOL r) of
        Inl e \<Rightarrow> Inl e
      | Inr s \<Rightarrow>
          (case fillna_texts td (other_text r) of
             Inl e \<Rightarrow> Inl e
           | Inr ts \<Rightarrow>
               Inr \<lparr>SYMBOL = s,
                    market_cap = (if isna (market_cap r) then Fin 0 else market_cap r),
                    other_text = ts,
                    other_numeric = fillna (Fin 0) (other_numeric r)\<rparr>))"

fun fillna_rows :: "text_dtype \<Rightarrow> stock list \<Rightarrow> error + stock list" where
  "fillna_rows td [] = Inr []"
| "fillna_rows td (r # rs) =
     (case fillna_row td r of
        Inl e \<Rightarrow> Inl e
      | Inr r' \<Rightarrow> (case fillna_rows td rs of Inl e \<Rightarrow> Inl e | Inr rs' \<Rightarrow> Inr (r' # rs')))"

text \<open>
  Line 33: \<^verbatim>\<open>sort_values(by="market_cap", ascending=False)\<close>. Missing values go last
  (\<^verbatim>\<open>na_position='last'\<close>). The order among rows of equal market cap is left to numpy's
  sort; this model keeps their order, and nothing below depends on it.
\<close>

fun insert_desc :: "stock \<Rightarrow> stock list \<Rightarrow> stock list" where
  "insert_desc r [] = [r]"
| "insert_desc r (x # xs) =
     (if isna (market_cap x) \<or> fle (market_cap x) (market_cap r) then r # x # xs
      else x # insert_desc r xs)"

definition sort_values_desc :: "stock list \<Rightarrow> stock list" where
  "sort_values_desc rows = foldr insert_desc rows []"

text \<open>Lines 31 to 34; after \<^verbatim>\<open>reset_index\<close> the position in the list is the row label.\<close>

definition stock_mcap_df :: "text_dtype \<Rightarrow> stock list \<Rightarrow> error + stock list" where
  "stock_mcap_df td rows =
     (case fillna_rows td rows of
        Inl e \<Rightarrow> Inl e
      | Inr filled \<Rightarrow> Inr (sort_values_desc filled))"

definition group_size :: nat where
  "group_size = 200"

text \<open>\<^verbatim>\<open>math.ceil(len(stock_mcap_df) / group_size)\<close>.\<close>

definition total_groups :: "stock list \<Rightarrow> nat" where
  "total_groups df = (length df + group_size - 1) div group_size"

text \<open>
  Lines 49 to 52. The select box offers the group numbers 1 to \<open>total_groups\<close>, so
  \<open>group_no\<close> is at least 1.
\<close>

definition df_group :: "nat \<Rightarrow> stock list \<Rightarrow> stock list" where
  "df_group group_no df =
     (let start_idx = (group_no - 1) * group_size;
          end_idx = start_idx + group_size
      in take (end_idx - start_idx) (drop start_idx df))"

text \<open>Line 60: \<^verbatim>\<open>s + ".NS"\<close> raises TypeError when \<^verbatim>\<open>s\<close> is a number.\<close>

fun symbols :: "stock list \<Rightarrow> error + string list" where
  "symbols [] = Inr []"
| "symbols (r # rs) =
     (case SYMBOL r of
        Num _ \<Rightarrow> Inl TypeError
      | Str s \<Rightarrow> (case symbols rs of Inl e \<Rightarrow> Inl e | Inr ss \<Rightarrow> Inr ((s @ ''.NS'') # ss)))"

text \<open>
  The whole script. The download of line 62 is the external price source: a parameter,
  mapping the symbols (for the chosen dates) to the frame of closing prices.
\<close>

definition dashboard ::
  "(string list \<Rightarrow> dataframe) \<Rightarrow> text_dtype \<Rightarrow> fill_method \<Rightarrow> stock list \<Rightarrow> nat \<Rightarrow> bool
     \<Rightarrow> filter_option \<Rightarrow> error + page" where
  "dashboard download td fm rows group_no show_table fo =
     (case stock_mcap_df td rows of
        Inl e \<Rightarrow> Inl e
      | Inr df \<Rightarrow>
          (case symbols (df_group group_no df) of
             Inl e \<Rightarrow> Inl e
           | Inr syms \<Rightarrow> run fm show_table fo (download syms)))"

section \<open>Properties of the returns\<close>

lemma length_ffill_from [simp]: "length (ffill_from p xs) = length xs"
  by (induction xs arbitrary: p) (auto simp: Let_def)

lemma length_shift1 [simp]: "length (shift1 xs) = length xs"
  by (cases xs rule: rev_cases) (auto simp: shift1_def)

lemma length_ffill [simp]: "length (ffill xs) = length xs"
  by (simp add: ffill_def)

lemma length_pct_change_col [simp]: "length (pct_change_col fm xs) = length xs"
  by (cases fm) (auto simp: pct_change_col_def Let_def)

lemma length_pct_col [simp]: "length (pct_col fm xs) = length xs"
  by (simp add: pct_col_def fillna_def)

lemma length_np_cumprod_from [simp]: "length (np_cumprod_from a xs) = length xs"
  by (induction xs arbitrary: a) auto

lemma length_cumprod [simp]: "length (cumprod xs) = length xs"
  by (simp add: cumprod_def)

lemma length_total_pct_col [simp]: "length (total_pct_col rs) = length rs"
  by (simp add: total_pct_col_def)

lemma shift1_nth: "0 < t \<Longrightarrow> t < length xs \<Longrightarrow> shift1 xs ! t = xs ! (t - 1)"
  by (cases t) (auto simp: shift1_def nth_butlast)

lemma shift1_0: "0 < length xs \<Longrightarrow> shift1 xs ! 0 = NaN"
  by (auto simp: shift1_def)


lemma pct_change_col_nth:
  "t < length xs \<Longrightarrow>
   pct_change_col fm xs ! t =
     fsub (fdiv ((case fm of Pad \<Rightarrow> ffill xs | NoFill \<Rightarrow> xs) ! t)
                (shift1 (case fm of Pad \<Rightarrow> ffill xs | NoFill \<Rightarrow> xs) ! t)) (Fin 1)"
  by (cases fm) (simp_all add: pct_change_col_def Let_def)

lemma ffill_from_nth:
  "t < length xs \<Longrightarrow>
   ffill_from p xs ! t =
     (if isna (xs ! t) then (if t = 0 then p else ffill_from p xs ! (t - 1)) else xs ! t)"
proof (induction xs arbitrary: p t)
  case Nil then show ?case by simp
next
  case (Cons x xs)
  show ?case
  proof (cases t)
    case 0 then show ?thesis by (simp add: Let_def)
  next
    case (Suc k)
    with Cons.prems have k: "k < length xs" by simp
    show ?thesis using Cons.IH[OF k, of "if isna x then p else x"] Suc
      by (cases k) (auto simp: Let_def)
  qed
qed

lemma fdiv_self_sub1: "fsub (fdiv v v) (Fin 1) = NaN \<or> fsub (fdiv v v) (Fin 1) = Fin 0"
  by (cases v) (auto simp: fsub_def inf_of_sign_def)


lemma fdiv_NaN_right [simp]: "fdiv x NaN = NaN"
  by (cases x) simp_all

lemma pct_col_nth:
  "t < length xs \<Longrightarrow>
   pct_col fm xs ! t =
     (let data = (case fm of Pad \<Rightarrow> ffill xs | NoFill \<Rightarrow> xs);
          r = fsub (fdiv (data ! t) (shift1 data ! t)) (Fin 1)
      in if isna r then Fin 0 else r)"
  by (simp add: pct_col_def fillna_def pct_change_col_nth Let_def)

lemma ffill_nth_present: "t < length xs \<Longrightarrow> \<not> isna (xs ! t) \<Longrightarrow> ffill xs ! t = xs ! t"
  by (simp add: ffill_def ffill_from_nth)

lemma ffill_nth_missing:
  "0 < t \<Longrightarrow> t < length xs \<Longrightarrow> isna (xs ! t) \<Longrightarrow> ffill xs ! t = ffill xs ! (t - 1)"
  by (simp add: ffill_def ffill_from_nth)

lemma pct_col_first: "0 < length xs \<Longrightarrow> pct_col fm xs ! 0 = Fin 0"
  by (cases fm) (simp_all add: pct_col_nth shift1_0 fsub_def Let_def)

lemma total_pct_col_first:
  "0 < length rs \<Longrightarrow> rs ! 0 = Fin 0 \<Longrightarrow> total_pct_col rs ! 0 = Fin 0"
  by (cases rs) (simp_all add: total_pct_col_def cumprod_def fsub_def)

lemma columns_map_columns [simp]:
  "columns (map_columns f df) = map (\<lambda>nc. (fst nc, f (snd nc))) (columns df)"
  by (simp add: map_columns_def)

lemma index_map_columns [simp]: "index (map_columns f df) = index df"
  by (simp add: map_columns_def)

lemma columns_total_pct_df:
  "columns (total_pct_df fm df) =
     map (\<lambda>nc. (fst nc, total_pct_col (pct_col fm (snd nc)))) (columns df)"
  by (simp add: total_pct_df_def pct_df_def o_def)

lemma index_total_pct_df [simp]: "index (total_pct_df fm df) = index df"
  by (simp add: total_pct_df_def pct_df_def)

lemma names_total_pct_df [simp]:
  "map fst (columns (total_pct_df fm df)) = map fst (columns df)"
  by (simp add: columns_total_pct_df o_def)

text \<open>
  Claim C4. For a well-formed price frame that is not empty, the frame of line 77 has
  the columns of the price frame, and its first row is 0.0 in every one of them.
\<close>

theorem total_pct_df_first_row:
  assumes "wf_df price_df" and "\<not> empty_df price_df"
  shows "map fst (columns (total_pct_df fm price_df)) = map fst (columns price_df)
       \<and> row_at (total_pct_df fm price_df) 0 = replicate (length (columns price_df)) (Fin 0)"
proof -
  have len: "0 < length (snd nc)" if "nc \<in> set (columns price_df)" for nc
    using that assms by (auto simp: wf_df_def empty_df_def list_all_iff)
  have "total_pct_col (pct_col fm (snd nc)) ! 0 = Fin 0"
    if "nc \<in> set (columns price_df)" for nc
    using len[OF that] by (simp add: total_pct_col_first pct_col_first)
  then have "row_at (total_pct_df fm price_df) 0 = map (\<lambda>nc. Fin 0) (columns price_df)"
    by (simp add: row_at_def columns_total_pct_df o_def)
  then show ?thesis by (simp add: map_replicate_const)
qed

text \<open>
  The hypotheses of C4 hold for a frame of two tickers over two dates, one with a missing first price.
\<close>

theorem total_pct_df_first_row_witness:
  "wf_df \<lparr>index = [0, 1], columns = [(''A.NS'', [Fin 100, Fin 110]), (''B.NS'', [NaN, Fin 45])]\<rparr>
   \<and> \<not> empty_df \<lparr>index = [0, 1], columns = [(''A.NS'', [Fin 100, Fin 110]), (''B.NS'', [NaN, Fin 45])]\<rparr>
   \<and> row_at (total_pct_df Pad
        \<lparr>index = [0, 1], columns = [(''A.NS'', [Fin 100, Fin 110]), (''B.NS'', [NaN, Fin 45])]\<rparr>) 0
       = [Fin 0, Fin 0]"
proof -
  let ?df = "\<lparr>index = [0, 1::nat], columns = [(''A.NS'', [Fin 100, Fin 110]), (''B.NS'', [NaN, Fin 45])]\<rparr>"
  have w: "wf_df ?df" by (simp add: wf_df_def)
  have e: "\<not> empty_df ?df" by (simp add: empty_df_def)
  show ?thesis using w e total_pct_df_first_row [OF w e, of Pad] by (simp add: numeral_2_eq_2)
qed

lemma names_setitem:
  "map fst (columns (setitem n v df)) =
     (if n \<in> set (map fst (columns df)) then map fst (columns df)
      else map fst (columns df) @ [n])"
proof -
  have "map fst (map (\<lambda>nc. if fst nc = n then (n, v) else nc) cs) = map fst cs" for cs
    by (induction cs) auto
  then show ?thesis by (simp add: setitem_def)
qed

lemma index_setitem [simp]: "index (setitem n v df) = index df"
  by (simp add: setitem_def)

lemma map_of_replace:
  "map_of (map (\<lambda>nc. if fst nc = n then (n, v) else nc) cs) m =
     (if m = n \<and> n \<in> set (map fst cs) then Some v else map_of cs m)"
proof (induction cs)
  case Nil
  then show ?case by simp
next
  case (Cons c cs)
  then show ?case by (cases c) force
qed

lemma map_of_append_fresh:
  "n \<notin> set (map fst cs) \<Longrightarrow>
   map_of (cs @ [(n, v)]) m = (if m = n then Some v else map_of cs m)"
  by (induction cs) auto

lemma getitem_setitem:
  "getitem (setitem n v df) m = (if m = n then Inr v else getitem df m)"
proof (cases "n \<in> set (map fst (columns df))")
  case True
  then show ?thesis by (simp add: getitem_def setitem_def map_of_replace)
next
  case False
  then show ?thesis
    by (simp add: getitem_def setitem_def map_of_append_fresh del: map_of_append)
qed

lemma drop_columns_ok:
  "set labels \<subseteq> set (map fst (columns df)) \<Longrightarrow>
   drop_columns labels df =
     Inr (df\<lparr>columns := filter (\<lambda>nc. fst nc \<notin> set labels) (columns df)\<rparr>)"
proof -
  assume "set labels \<subseteq> set (map fst (columns df))"
  then have "filter (\<lambda>l. l \<notin> set (map fst (columns df))) labels = []"
    by (auto simp: filter_empty_conv)
  then show ?thesis by (simp add: drop_columns_def)
qed

lemma setitem_in_names: "n \<in> set (map fst (columns (setitem n v df)))"
  by (simp add: names_setitem)

lemma setitem_keeps_names:
  "m \<in> set (map fst (columns df)) \<Longrightarrow> m \<in> set (map fst (columns (setitem n v df)))"
  by (simp add: names_setitem)

text \<open>
  Claim C8. Lines 79 to 88 never raise, and in the frame they produce the column
  \<^verbatim>\<open>2std\<close> is, cell by cell, 2 times the column \<^verbatim>\<open>std\<close>: it is derived from that
  column, not computed from the stock columns.
\<close>

theorem std2_is_twice_std:
  "\<exists>df s. total_pct_df_stats df0 = Inr df \<and> getitem df ''std'' = Inr s
     \<and> getitem df ''2std'' = Inr (map (\<lambda>x. fmul (Fin 2) x) s)"
proof -
  define df1 where "df1 = setitem ''mean_pct_chg'' (mean_axis1 df0) df0"
  have "set [''mean_pct_chg''] \<subseteq> set (map fst (columns df1))"
    unfolding df1_def using setitem_in_names by simp
  from drop_columns_ok[OF this] obtain d1 where d1: "drop_columns [''mean_pct_chg''] df1 = Inr d1"
    by blast
  define df2 where "df2 = setitem ''median_pct_change'' (median_axis1 d1) df1"
  have "set [''mean_pct_chg'', ''median_pct_change''] \<subseteq> set (map fst (columns df2))"
    unfolding df2_def df1_def using setitem_in_names setitem_keeps_names by simp
  from drop_columns_ok[OF this] obtain d2
    where d2: "drop_columns [''mean_pct_chg'', ''median_pct_change''] df2 = Inr d2"
    by blast
  define df3 where "df3 = setitem ''std'' (std_axis1 d2) df2"
  have g: "getitem df3 ''std'' = Inr (std_axis1 d2)"
    by (simp add: df3_def getitem_setitem)
  let ?s = "std_axis1 d2"
  let ?df = "setitem ''2std'' (map (\<lambda>x. fmul (Fin 2) x) ?s) df3"
  have r: "total_pct_df_stats df0 = Inr ?df"
    using d1 d2 g
    by (simp add: total_pct_df_stats_def Let_def df1_def[symmetric] df2_def[symmetric]
        df3_def[symmetric])
  have "getitem ?df ''std'' = Inr ?s" using g by (simp add: getitem_setitem)
  moreover have "getitem ?df ''2std'' = Inr (map (\<lambda>x. fmul (Fin 2) x) ?s)"
    by (simp add: getitem_setitem)
  ultimately show ?thesis using r by blast
qed

lemma stats_cols_fresh:
  assumes "set (map fst (columns df0)) \<inter> set stats_cols = {}"
  shows "total_pct_df_stats df0 =
     Inr (df0\<lparr>columns := columns df0 @
        [(''mean_pct_chg'', mean_axis1 df0),
         (''median_pct_change'', median_axis1 df0),
         (''std'', std_axis1 df0),
         (''2std'', map (\<lambda>x. fmul (Fin 2) x) (std_axis1 df0))]\<rparr>)"
proof -
  from assms have fresh: "''mean_pct_chg'' \<notin> set (map fst (columns df0))"
    "''median_pct_change'' \<notin> set (map fst (columns df0))"
    "''std'' \<notin> set (map fst (columns df0))"
    "''2std'' \<notin> set (map fst (columns df0))"
    by (auto simp: stats_cols_def)
  have keep1: "filter (\<lambda>nc. fst nc \<noteq> ''mean_pct_chg'') (columns df0) = columns df0"
    using fresh(1) by (auto simp: filter_id_conv image_iff)
  have keep2: "filter (\<lambda>nc. fst nc \<noteq> ''mean_pct_chg'' \<and> fst nc \<noteq> ''median_pct_change'') (columns df0)
      = columns df0"
    using fresh(1,2) by (auto simp: filter_id_conv image_iff)
  define df1 where "df1 = df0\<lparr>columns := columns df0 @ [(''mean_pct_chg'', mean_axis1 df0)]\<rparr>"
  have s1: "setitem ''mean_pct_chg'' (mean_axis1 df0) df0 = df1"
    using fresh(1) by (simp add: setitem_def df1_def)
  have d1: "drop_columns [''mean_pct_chg''] df1 = Inr df0"
    using keep1 by (simp add: drop_columns_def df1_def)
  define df2 where "df2 = df0\<lparr>columns := columns df0 @ [(''mean_pct_chg'', mean_axis1 df0),
         (''median_pct_change'', median_axis1 df0)]\<rparr>"
  have s2: "setitem ''median_pct_change'' (median_axis1 df0) df1 = df2"
    using fresh(2) by (simp add: setitem_def df1_def df2_def)
  have d2: "drop_columns [''mean_pct_chg'', ''median_pct_change''] df2 = Inr df0"
    using keep2 by (simp add: drop_columns_def df2_def)
  define df3 where "df3 = df0\<lparr>columns := columns df0 @ [(''mean_pct_chg'', mean_axis1 df0),
         (''median_pct_change'', median_axis1 df0), (''std'', std_axis1 df0)]\<rparr>"
  have s3: "setitem ''std'' (std_axis1 df0) df2 = df3"
    using fresh(3) by (simp add: setitem_def df2_def df3_def)
  have g: "getitem df3 ''std'' = Inr (std_axis1 df0)"
    unfolding s3[symmetric] by (simp add: getitem_setitem)
  have s4: "setitem ''2std'' (map (\<lambda>x. fmul (Fin 2) x) (std_axis1 df0)) df3 =
      df0\<lparr>columns := columns df0 @ [(''mean_pct_chg'', mean_axis1 df0),
         (''median_pct_change'', median_axis1 df0), (''std'', std_axis1 df0),
         (''2std'', map (\<lambda>x. fmul (Fin 2) x) (std_axis1 df0))]\<rparr>"
    using fresh(4) by (simp add: setitem_def df3_def)
  show ?thesis
    by (simp add: total_pct_df_stats_def Let_def s1 d1 s2 d2 s3 g s4)
qed

lemma image_names_total_pct_df [simp]:
  "fst ` set (columns (total_pct_df fm df)) = fst ` set (columns df)"
  using names_total_pct_df[of fm df] by (metis set_map)

text \<open>
  Claim C7. When the downloaded price frame is empty, the run returns (it does not
  raise) with the warning on the page and neither a table nor a chart: the check of
  line 69 comes before every computation.
\<close>

theorem run_empty_halts:
  assumes "empty_df price_df"
  shows "run fm show_table fo price_df =
     Inr \<lparr>warning = Some ''No price data available for selected date range.'',
          table = None, chart = None\<rparr>"
  using assms by (simp add: run_def)

theorem run_empty_halts_witness:
  "empty_df \<lparr>index = [], columns = []\<rparr>
   \<and> run Pad True AboveMean \<lparr>index = [], columns = []\<rparr> =
     Inr \<lparr>warning = Some ''No price data available for selected date range.'',
          table = None, chart = None\<rparr>"
proof -
  have e: "empty_df \<lparr>index = [], columns = []\<rparr>" by (simp add: empty_df_def)
  show ?thesis using e run_empty_halts [OF e, of Pad True AboveMean] by simp
qed

lemma stock_cols_annotated:
  assumes "set (map fst cs) \<inter> set stats_cols = {}"
  shows "stock_cols (df0\<lparr>columns := cs @
        [(''mean_pct_chg'', a), (''median_pct_change'', b), (''std'', c), (''2std'', d)]\<rparr>)
     = map fst cs"
proof -
  have "filter (\<lambda>c. c \<notin> set stats_cols) (map fst cs) = map fst cs"
    using assms by (auto simp: filter_id_conv)
  then show ?thesis by (simp add: stock_cols_def) (simp add: stats_cols_def)
qed

lemma stock_frame_annotated:
  assumes "set (map fst cs) \<inter> set stats_cols = {}"
  shows "filter (\<lambda>nc. fst nc \<in> set (map fst cs)) (cs @
        [(''mean_pct_chg'', a), (''median_pct_change'', b), (''std'', c), (''2std'', d)]) = cs"
proof -
  have "filter (\<lambda>nc. fst nc \<in> set (map fst cs)) cs = cs"
    by (auto simp: filter_id_conv)
  moreover have "''mean_pct_chg'' \<notin> set (map fst cs)" "''median_pct_change'' \<notin> set (map fst cs)"
    "''std'' \<notin> set (map fst cs)" "''2std'' \<notin> set (map fst cs)"
    using assms by (auto simp: stats_cols_def)
  ultimately show ?thesis by simp
qed

text \<open>
  Claim C3. When no price column bears the name of a statistic column, lines 79 to 88
  succeed; the stock columns of the result are the columns of the price frame, they hold
  the frame of line 77, and the columns \<^verbatim>\<open>mean_pct_chg\<close>, \<^verbatim>\<open>median_pct_change\<close> and
  \<^verbatim>\<open>std\<close> are the row-wise mean, median and standard deviation over the stock columns
  alone: the mean column does not enter the median, and neither enters the standard
  deviation.
\<close>

theorem stats_over_stock_columns:
  assumes "set (map fst (columns price_df)) \<inter> set stats_cols = {}"
  shows "\<exists>df. total_pct_df_stats (total_pct_df fm price_df) = Inr df
     \<and> stock_cols df = map fst (columns price_df)
     \<and> df\<lparr>columns := filter (\<lambda>nc. fst nc \<in> set (stock_cols df)) (columns df)\<rparr>
         = total_pct_df fm price_df
     \<and> getitem df ''mean_pct_chg'' =
         Inr (reduce_axis1 nanmean
           (df\<lparr>columns := filter (\<lambda>nc. fst nc \<in> set (stock_cols df)) (columns df)\<rparr>))
     \<and> getitem df ''median_pct_change'' =
         Inr (reduce_axis1 nanmedian
           (df\<lparr>columns := filter (\<lambda>nc. fst nc \<in> set (stock_cols df)) (columns df)\<rparr>))
     \<and> getitem df ''std'' =
         Inr (reduce_axis1 (nanstd 1)
           (df\<lparr>columns := filter (\<lambda>nc. fst nc \<in> set (stock_cols df)) (columns df)\<rparr>))"
proof -
  let ?base = "total_pct_df fm price_df"
  let ?ann = "?base\<lparr>columns := columns ?base @
        [(''mean_pct_chg'', mean_axis1 ?base),
         (''median_pct_change'', median_axis1 ?base),
         (''std'', std_axis1 ?base),
         (''2std'', map (\<lambda>x. fmul (Fin 2) x) (std_axis1 ?base))]\<rparr>"
  have fresh: "set (map fst (columns ?base)) \<inter> set stats_cols = {}"
    using assms by (simp only: names_total_pct_df)
  have r: "total_pct_df_stats ?base = Inr ?ann" by (rule stats_cols_fresh[OF fresh])
  have sc: "stock_cols ?ann = map fst (columns ?base)"
    by (rule stock_cols_annotated[OF fresh])
  have restr: "?ann\<lparr>columns := filter (\<lambda>nc. fst nc \<in> set (stock_cols ?ann)) (columns ?ann)\<rparr> = ?base"
    unfolding sc using stock_frame_annotated[OF fresh] by simp
  have fr: "''mean_pct_chg'' \<notin> set (map fst (columns ?base))"
    "''median_pct_change'' \<notin> set (map fst (columns ?base))"
    "''std'' \<notin> set (map fst (columns ?base))"
    using fresh by (auto simp: stats_cols_def)
  have none: "map_of (columns ?base) ''mean_pct_chg'' = None"
    "map_of (columns ?base) ''median_pct_change'' = None"
    "map_of (columns ?base) ''std'' = None"
    using fr by (simp_all add: map_of_eq_None_iff)
  have g1: "getitem ?ann ''mean_pct_chg'' = Inr (mean_axis1 ?base)"
    and g2: "getitem ?ann ''median_pct_change'' = Inr (median_axis1 ?base)"
    and g3: "getitem ?ann ''std'' = Inr (std_axis1 ?base)"
    using none by (simp_all add: getitem_def map_add_def)
  show ?thesis
    apply (rule exI[of _ ?ann])
    unfolding restr
    using r sc g1 g2 g3
    by (simp add: mean_axis1_def median_axis1_def std_axis1_def)
qed


theorem stats_over_stock_columns_witness:
  "set (map fst (columns \<lparr>index = [0, 1], columns = [(''A.NS'', [Fin 100, Fin 110]),
        (''B.NS'', [Fin 50, Fin 45]), (''C.NS'', [Fin 10, Fin 10])]\<rparr>)) \<inter> set stats_cols = {}
   \<and> (\<exists>df. total_pct_df_stats (total_pct_df Pad \<lparr>index = [0, 1],
          columns = [(''A.NS'', [Fin 100, Fin 110]), (''B.NS'', [Fin 50, Fin 45]),
            (''C.NS'', [Fin 10, Fin 10])]\<rparr>) = Inr df
        \<and> stock_cols df = [''A.NS'', ''B.NS'', ''C.NS''])"
proof -
  let ?p = "\<lparr>index = [0, 1::nat], columns = [(''A.NS'', [Fin 100, Fin 110]),
        (''B.NS'', [Fin 50, Fin 45]), (''C.NS'', [Fin 10, Fin 10])]\<rparr>"
  have h: "set (map fst (columns ?p)) \<inter> set stats_cols = {}"
    by (simp add: stats_cols_def)
  from stats_over_stock_columns [OF h, of Pad]
  obtain df where "total_pct_df_stats (total_pct_df Pad ?p) = Inr df"
    and "stock_cols df = map fst (columns ?p)" by blast
  then show ?thesis using h by auto
qed

lemma foldl_fadd_Fin: "foldl fadd (Fin a) (map Fin rs) = Fin (a + sum_list rs)"
  by (induction rs arbitrary: a) (simp_all add: add.assoc)

lemma fsum_Fin: "fsum (map Fin rs) = Fin (sum_list rs)"
  by (simp add: fsum_def foldl_fadd_Fin)

lemma dropna_Fin [simp]: "dropna (map Fin rs) = map Fin rs"
  by (induction rs) (simp_all add: dropna_def)

lemma nanvar_Fin:
  assumes "ddof < length rs"
  shows "nanvar ddof (map Fin rs) =
     Fin ((\<Sum>r\<leftarrow>rs. (r - sum_list rs / real (length rs))\<^sup>2) / real (length rs - ddof))"
proof -
  let ?m = "sum_list rs / real (length rs)"
  have n0: "real (length rs) \<noteq> 0" and d0: "real (length rs - ddof) \<noteq> 0"
    using assms by auto
  have avg: "fdiv (fsum (map Fin rs)) (Fin (real (length rs))) = Fin ?m"
    using n0 by (simp add: fsum_Fin)
  have sq: "map (\<lambda>x. fmul (fsub (Fin ?m) x) (fsub (Fin ?m) x)) (map Fin rs) =
      map Fin (map (\<lambda>r. (r - ?m)\<^sup>2) rs)"
    by (simp add: fsub_def power2_eq_square o_def) (simp add: algebra_simps)
  have len: "\<not> length rs \<le> ddof" and ne: "rs \<noteq> []" using assms by auto
  show ?thesis
    using ne by (simp add: nanvar_def Let_def avg sq fsum_Fin len d0 del: map_map)
qed

lemma sum_list_squares_nonneg: "0 \<le> (\<Sum>r\<leftarrow>rs. (r - m)\<^sup>2)" for m :: real
  by (induction rs) simp_all

lemma std_axis1_nth:
  "i < length (index df) \<Longrightarrow> std_axis1 df ! i = nanstd 1 (row_at df i)"
  by (simp add: std_axis1_def reduce_axis1_def)

text \<open>
  Claim C2, as the code has it. \<^verbatim>\<open>.std(axis=1)\<close> is the sample standard deviation
  (divisor \<open>n - 1\<close>): for a row over exactly one column it is NaN, whatever the cell;
  for a row of at least two finite cells it is the square root of the sum of squared
  deviations from the row mean over \<open>n - 1\<close>, which is not negative.
\<close>

theorem std_axis1_sample:
  assumes "i < length (index df)"
  shows "(length (columns df) = 1 \<longrightarrow> std_axis1 df ! i = NaN)
       \<and> (\<forall>rs. 2 \<le> length rs \<and> row_at df i = map Fin rs \<longrightarrow>
            std_axis1 df ! i =
              Fin (sqrt ((\<Sum>r\<leftarrow>rs. (r - sum_list rs / real (length rs))\<^sup>2) / real (length rs - 1)))
            \<and> 0 \<le> sqrt ((\<Sum>r\<leftarrow>rs. (r - sum_list rs / real (length rs))\<^sup>2) / real (length rs - 1)))"
proof -
  have one: "std_axis1 df ! i = NaN" if "length (columns df) = 1"
  proof -
    have "length (dropna (row_at df i)) \<le> 1"
      using that length_filter_le[of "\<lambda>x. \<not> isna x" "row_at df i"]
      by (simp add: dropna_def row_at_def)
    then show ?thesis using assms by (simp add: std_axis1_nth nanstd_def nanvar_def Let_def)
  qed
  have many: "std_axis1 df ! i =
              Fin (sqrt ((\<Sum>r\<leftarrow>rs. (r - sum_list rs / real (length rs))\<^sup>2) / real (length rs - 1)))
            \<and> 0 \<le> sqrt ((\<Sum>r\<leftarrow>rs. (r - sum_list rs / real (length rs))\<^sup>2) / real (length rs - 1))"
    if "2 \<le> length rs" "row_at df i = map Fin rs" for rs
  proof -
    have d: "1 < length rs" using that(1) by simp
    have nn: "0 \<le> (\<Sum>r\<leftarrow>rs. (r - sum_list rs / real (length rs))\<^sup>2) / real (length rs - 1)"
      using sum_list_squares_nonneg[where rs = rs and m = "sum_list rs / real (length rs)"] by simp
    have "std_axis1 df ! i = fsqrt (nanvar 1 (map Fin rs))"
      using assms that(2) by (simp add: std_axis1_nth nanstd_def)
    also have "nanvar 1 (map Fin rs) =
        Fin ((\<Sum>r\<leftarrow>rs. (r - sum_list rs / real (length rs))\<^sup>2) / real (length rs - 1))"
      by (rule nanvar_Fin[OF d])
    finally show ?thesis using nn by simp
  qed
  show ?thesis using one many by blast
qed

text \<open>
  Claim C2 as stated fails: for a group of one ticker the standard deviation of every
  row is NaN, not 0.
\<close>

theorem std_single_ticker_counterexample:
  "std_axis1 (total_pct_df NoFill \<lparr>index = [0, 1], columns = [(''A.NS'', [Fin 100, Fin 110])]\<rparr>)
     = [NaN, NaN]
   \<and> std_axis1 (total_pct_df Pad \<lparr>index = [0, 1], columns = [(''A.NS'', [Fin 100, Fin 110])]\<rparr>)
     = [NaN, NaN]"
  by (simp add: std_axis1_def reduce_axis1_def row_at_def nanstd_def nanvar_def dropna_def
      total_pct_df_def pct_df_def map_columns_def Let_def numeral_2_eq_2)


theorem std_axis1_sample_witness:
  "1 < length (index \<lparr>index = [0, 1], columns = [(''A.NS'', [Fin 0, Fin 10])]\<rparr>)
   \<and> length (columns \<lparr>index = [0, 1], columns = [(''A.NS'', [Fin 0, Fin 10])]\<rparr>) = 1
   \<and> std_axis1 \<lparr>index = [0, 1], columns = [(''A.NS'', [Fin 0, Fin 10])]\<rparr> ! 1 = NaN
   \<and> 2 \<le> length [10, - 10, 0 :: real]
   \<and> row_at \<lparr>index = [0, 1], columns = [(''A.NS'', [Fin 0, Fin 10]),
         (''B.NS'', [Fin 0, Fin (- 10)]), (''C.NS'', [Fin 0, Fin 0])]\<rparr> 1 = map Fin [10, - 10, 0]
   \<and> std_axis1 \<lparr>index = [0, 1], columns = [(''A.NS'', [Fin 0, Fin 10]),
         (''B.NS'', [Fin 0, Fin (- 10)]), (''C.NS'', [Fin 0, Fin 0])]\<rparr> ! 1 = Fin 10"
proof -
  let ?one = "\<lparr>index = [0, 1::nat], columns = [(''A.NS'', [Fin 0, Fin 10])]\<rparr>"
  let ?three = "\<lparr>index = [0, 1::nat], columns = [(''A.NS'', [Fin 0, Fin 10]),
         (''B.NS'', [Fin 0, Fin (- 10)]), (''C.NS'', [Fin 0, Fin 0])]\<rparr>"
  have i1: "1 < length (index ?one)" and i3: "1 < length (index ?three)" by simp_all
  have a: "std_axis1 ?one ! 1 = NaN"
    using std_axis1_sample [OF i1] by simp
  have r: "2 \<le> length [10, - 10, 0 :: real] \<and> row_at ?three 1 = map Fin [10, - 10, 0]"
    by (simp add: row_at_def)
  have "std_axis1 ?three ! 1 =
      Fin (sqrt ((\<Sum>r\<leftarrow>[10, - 10, 0]. (r - sum_list [10, - 10, 0] / real (length [10, - 10, 0 :: real]))\<^sup>2)
        / real (length [10, - 10, 0 :: real] - 1)))"
    using std_axis1_sample [OF i3, THEN conjunct2, THEN spec, of "[10, - 10, 0]"] r by blast
  also have "(\<Sum>r\<leftarrow>[10, - 10, 0]. (r - sum_list [10, - 10, 0] / real (length [10, - 10, 0 :: real]))\<^sup>2)
        / real (length [10, - 10, 0 :: real] - 1) = (10 :: real)\<^sup>2"
    by simp
  finally have b: "std_axis1 ?three ! 1 = Fin 10" by simp
  show ?thesis using a b r by simp
qed

lemma map_of_cells:
  "map_of (map (\<lambda>nc. (fst nc, snd nc ! k)) cs) c = map_option (\<lambda>v. v ! k) (map_of cs c)"
  by (induction cs) auto

lemma stock_lines_loop:
  assumes "\<And>c. c \<in> set cols \<Longrightarrow> \<exists>b. show_col fo lv c = Inr b"
    and "\<And>c. c \<in> set cols \<Longrightarrow> \<exists>v. map_of (columns df) c = Some v"
  shows "stock_lines fo df lv cols fig =
     Inr (fig @ map (\<lambda>c. \<lparr>trace_name = c, trace_x = index df,
                            trace_y = the (map_of (columns df) c),
                            trace_style = Opacity (6 / 10)\<rparr>)
                  (filter (\<lambda>c. show_col fo lv c = Inr True) cols))"
  using assms
proof (induction cols arbitrary: fig)
  case Nil
  then show ?case by simp
next
  case (Cons c cols)
  obtain b where b: "show_col fo lv c = Inr b" using Cons.prems(1)[of c] by auto
  obtain v where v: "map_of (columns df) c = Some v" using Cons.prems(2)[of c] by auto
  have IH: "stock_lines fo df lv cols fig' =
     Inr (fig' @ map (\<lambda>c. \<lparr>trace_name = c, trace_x = index df,
                            trace_y = the (map_of (columns df) c),
                            trace_style = Opacity (6 / 10)\<rparr>)
                  (filter (\<lambda>c. show_col fo lv c = Inr True) cols))" for fig'
    using Cons.IH[of fig'] Cons.prems by simp
  show ?case
    by (cases b) (simp_all add: b v IH scatter_def getitem_def)
qed

lemma show_col_eval:
  assumes "series_get lv c = Inr v"
    and "series_get lv ''mean_pct_chg'' = Inr m"
    and "series_get lv ''median_pct_change'' = Inr md"
    and "series_get lv ''std'' = Inr s"
    and "series_get lv ''2std'' = Inr s2"
  shows "show_col fo lv c =
     Inr (case fo of AllStocks \<Rightarrow> True | AboveMean \<Rightarrow> fgt v m | AboveMedian \<Rightarrow> fgt v md
          | AboveStd \<Rightarrow> fgt v s | Above2Std \<Rightarrow> fgt v s2)"
  using assms by (cases fo) (simp_all add: gt_last_def)

lemma reference_lines_eval:
  assumes "getitem df ''mean_pct_chg'' = Inr m"
    and "getitem df ''median_pct_change'' = Inr md"
    and "getitem df ''std'' = Inr s"
    and "getitem df ''2std'' = Inr s2"
  shows "reference_lines df reference_specs fig =
     Inr (fig @
       [\<lparr>trace_name = ''Mean'', trace_x = index df, trace_y = m,
          trace_style = DotLine 3 ''black''\<rparr>,
        \<lparr>trace_name = ''Median'', trace_x = index df, trace_y = md,
          trace_style = DotLine 3 ''blue''\<rparr>,
        \<lparr>trace_name = ''Std Dev'', trace_x = index df, trace_y = s,
          trace_style = DotLine 3 ''red''\<rparr>,
        \<lparr>trace_name = ''2 Std Dev'', trace_x = index df, trace_y = s2,
          trace_style = DotLine 3 ''purple''\<rparr>])"
  using assms by (simp add: reference_specs_def scatter_def)

lemma annotated_lookup:
  assumes "set (map fst cs) \<inter> set stats_cols = {}"
  shows "map_of (cs @ [(''mean_pct_chg'', a), (''median_pct_change'', b), (''std'', c), (''2std'', d)])
           ''mean_pct_chg'' = Some a"
    and "map_of (cs @ [(''mean_pct_chg'', a), (''median_pct_change'', b), (''std'', c), (''2std'', d)])
           ''median_pct_change'' = Some b"
    and "map_of (cs @ [(''mean_pct_chg'', a), (''median_pct_change'', b), (''std'', c), (''2std'', d)])
           ''std'' = Some c"
    and "map_of (cs @ [(''mean_pct_chg'', a), (''median_pct_change'', b), (''std'', c), (''2std'', d)])
           ''2std'' = Some d"
    and "n \<in> set (map fst cs) \<Longrightarrow>
         \<exists>v. map_of (cs @ [(''mean_pct_chg'', a), (''median_pct_change'', b), (''std'', c), (''2std'', d)]) n
           = Some v"
proof -
  have none: "map_of cs ''mean_pct_chg'' = None" "map_of cs ''median_pct_change'' = None"
    "map_of cs ''std'' = None" "map_of cs ''2std'' = None"
    using assms by (auto simp: map_of_eq_None_iff stats_cols_def)
  show "map_of (cs @ [(''mean_pct_chg'', a), (''median_pct_change'', b), (''std'', c), (''2std'', d)])
           ''mean_pct_chg'' = Some a"
    and "map_of (cs @ [(''mean_pct_chg'', a), (''median_pct_change'', b), (''std'', c), (''2std'', d)])
           ''median_pct_change'' = Some b"
    and "map_of (cs @ [(''mean_pct_chg'', a), (''median_pct_change'', b), (''std'', c), (''2std'', d)])
           ''std'' = Some c"
    and "map_of (cs @ [(''mean_pct_chg'', a), (''median_pct_change'', b), (''std'', c), (''2std'', d)])
           ''2std'' = Some d"
    using none by (simp_all add: map_add_def)
  assume "n \<in> set (map fst cs)"
  then obtain v where "map_of cs n = Some v"
    by (cases "map_of cs n") (auto simp: map_of_eq_None_iff)
  then show "\<exists>v. map_of (cs @ [(''mean_pct_chg'', a), (''median_pct_change'', b), (''std'', c), (''2std'', d)]) n
           = Some v"
    by (simp add: map_add_def)
qed


lemma run_steps:
  assumes ne: "\<not> empty_df price_df"
    and H: "set (map fst (columns price_df)) \<inter> set stats_cols = {}"
  shows "\<exists>df last_vals m md s s2 fig cm cmd cs cs2.
     total_pct_df_stats (total_pct_df fm price_df) = Inr df
   \<and> iloc_last df = Inr last_vals
   \<and> last_vals = map (\<lambda>nc. (fst nc, snd nc ! (length (index price_df) - 1))) (columns df)
   \<and> stock_cols df = map fst (columns price_df)
   \<and> series_get last_vals ''mean_pct_chg'' = Inr m
   \<and> series_get last_vals ''median_pct_change'' = Inr md
   \<and> series_get last_vals ''std'' = Inr s
   \<and> series_get last_vals ''2std'' = Inr s2
   \<and> stock_lines fo df last_vals (stock_cols df) [] = Inr fig
   \<and> map trace_name fig =
       filter (\<lambda>c. \<exists>v. series_get last_vals c = Inr v \<and>
                 (case fo of AllStocks \<Rightarrow> True | AboveMean \<Rightarrow> fgt v m | AboveMedian \<Rightarrow> fgt v md
                  | AboveStd \<Rightarrow> fgt v s | Above2Std \<Rightarrow> fgt v s2))
         (stock_cols df)
   \<and> (fo = AllStocks \<longrightarrow> map trace_name fig = map fst (columns price_df))
   \<and> getitem df ''mean_pct_chg'' = Inr cm
   \<and> getitem df ''median_pct_change'' = Inr cmd
   \<and> getitem df ''std'' = Inr cs
   \<and> getitem df ''2std'' = Inr cs2
   \<and> run fm show_table fo price_df =
       Inr \<lparr>warning = None,
            table = (if show_table then Some (tail50 df) else None),
            chart = Some (fig @
              [\<lparr>trace_name = ''Mean'', trace_x = index df, trace_y = cm,
                 trace_style = DotLine 3 ''black''\<rparr>,
               \<lparr>trace_name = ''Median'', trace_x = index df, trace_y = cmd,
                 trace_style = DotLine 3 ''blue''\<rparr>,
               \<lparr>trace_name = ''Std Dev'', trace_x = index df, trace_y = cs,
                 trace_style = DotLine 3 ''red''\<rparr>,
               \<lparr>trace_name = ''2 Std Dev'', trace_x = index df, trace_y = cs2,
                 trace_style = DotLine 3 ''purple''\<rparr>])\<rparr>"
proof -
  let ?base = "total_pct_df fm price_df"
  let ?cmean = "mean_axis1 ?base" and ?cmedian = "median_axis1 ?base" and ?cstd = "std_axis1 ?base"
  let ?ctwo = "map (\<lambda>x. fmul (Fin 2) x) (std_axis1 ?base)"
  let ?cols = "columns ?base @
        [(''mean_pct_chg'', ?cmean), (''median_pct_change'', ?cmedian), (''std'', ?cstd), (''2std'', ?ctwo)]"
  let ?ann = "?base\<lparr>columns := ?cols\<rparr>"
  let ?k = "length (index price_df) - 1"
  let ?lv = "map (\<lambda>nc. (fst nc, snd nc ! ?k)) ?cols"
  let ?tickers = "map fst (columns price_df)"
  have fresh: "set (map fst (columns ?base)) \<inter> set stats_cols = {}"
    using H by (simp only: names_total_pct_df)
  have r: "total_pct_df_stats ?base = Inr ?ann" by (rule stats_cols_fresh[OF fresh])
  have cols: "columns ?ann = ?cols" and idx: "index ?ann = index price_df" by simp_all
  have il: "iloc_last ?ann = Inr ?lv"
    using ne by (simp add: iloc_last_def empty_df_def)
  have sc: "stock_cols ?ann = ?tickers"
    using stock_cols_annotated[OF fresh] by (simp only: names_total_pct_df)
  note look = annotated_lookup[where cs = "columns ?base" and a = ?cmean and b = ?cmedian and c = ?cstd and d = ?ctwo, OF fresh]
  have g: "getitem ?ann ''mean_pct_chg'' = Inr ?cmean" "getitem ?ann ''median_pct_change'' = Inr ?cmedian"
    "getitem ?ann ''std'' = Inr ?cstd" "getitem ?ann ''2std'' = Inr ?ctwo"
    unfolding getitem_def cols by (simp_all only: look(1-4) option.case)
  have sg: "series_get ?lv ''mean_pct_chg'' = Inr (?cmean ! ?k)"
    "series_get ?lv ''median_pct_change'' = Inr (?cmedian ! ?k)"
    "series_get ?lv ''std'' = Inr (?cstd ! ?k)"
    "series_get ?lv ''2std'' = Inr (?ctwo ! ?k)"
    unfolding series_get_def map_of_cells by (simp_all only: look(1-4) option.case option.map)
  have tick: "\<exists>v. map_of ?cols c = Some v" if "c \<in> set ?tickers" for c
  proof -
    from that have "c \<in> set (map fst (columns ?base))" by (simp only: names_total_pct_df)
    then show ?thesis by (rule look(5))
  qed
  have tickv: "\<exists>v. series_get ?lv c = Inr v" if "c \<in> set ?tickers" for c
  proof -
    from tick[OF that] obtain v where "map_of ?cols c = Some v" by blast
    then show ?thesis unfolding series_get_def map_of_cells by simp
  qed
  have sh: "show_col fo ?lv c =
     Inr (case fo of AllStocks \<Rightarrow> True | AboveMean \<Rightarrow> fgt v (?cmean ! ?k)
          | AboveMedian \<Rightarrow> fgt v (?cmedian ! ?k)
          | AboveStd \<Rightarrow> fgt v (?cstd ! ?k) | Above2Std \<Rightarrow> fgt v (?ctwo ! ?k))"
    if "series_get ?lv c = Inr v" for c v
    by (rule show_col_eval[OF that sg])
  have shb: "\<exists>b. show_col fo ?lv c = Inr b" if "c \<in> set ?tickers" for c
    using tickv[OF that] sh by blast
  let ?fig = "map (\<lambda>c. \<lparr>trace_name = c, trace_x = index ?ann,
                            trace_y = the (map_of (columns ?ann) c),
                            trace_style = Opacity (6 / 10)\<rparr>)
                  (filter (\<lambda>c. show_col fo ?lv c = Inr True) ?tickers)"
  have sl: "stock_lines fo ?ann ?lv ?tickers [] = Inr ?fig"
    using stock_lines_loop[of ?tickers fo ?lv ?ann "[]"] shb tick unfolding cols by simp
  have names: "map trace_name ?fig =
       filter (\<lambda>c. \<exists>v. series_get ?lv c = Inr v \<and>
                 (case fo of AllStocks \<Rightarrow> True | AboveMean \<Rightarrow> fgt v (?cmean ! ?k)
                  | AboveMedian \<Rightarrow> fgt v (?cmedian ! ?k)
                  | AboveStd \<Rightarrow> fgt v (?cstd ! ?k) | Above2Std \<Rightarrow> fgt v (?ctwo ! ?k)))
         ?tickers"
  proof -
    have "map trace_name ?fig = filter (\<lambda>c. show_col fo ?lv c = Inr True) ?tickers"
      by (simp add: o_def)
    also have "\<dots> = filter (\<lambda>c. \<exists>v. series_get ?lv c = Inr v \<and>
                 (case fo of AllStocks \<Rightarrow> True | AboveMean \<Rightarrow> fgt v (?cmean ! ?k)
                  | AboveMedian \<Rightarrow> fgt v (?cmedian ! ?k)
                  | AboveStd \<Rightarrow> fgt v (?cstd ! ?k) | Above2Std \<Rightarrow> fgt v (?ctwo ! ?k)))
         ?tickers"
    proof (rule filter_cong[OF refl])
      fix c assume "c \<in> set ?tickers"
      then obtain v where v: "series_get ?lv c = Inr v" using tickv by blast
      show "(show_col fo ?lv c = Inr True) = (\<exists>v. series_get ?lv c = Inr v \<and>
                 (case fo of AllStocks \<Rightarrow> True | AboveMean \<Rightarrow> fgt v (?cmean ! ?k)
                  | AboveMedian \<Rightarrow> fgt v (?cmedian ! ?k)
                  | AboveStd \<Rightarrow> fgt v (?cstd ! ?k) | Above2Std \<Rightarrow> fgt v (?ctwo ! ?k)))"
        using sh[OF v] v by simp
    qed
    finally show ?thesis .
  qed
  have all: "fo = AllStocks \<longrightarrow> map trace_name ?fig = ?tickers"
  proof
    assume fo: "fo = AllStocks"
    have "filter (\<lambda>c. \<exists>v. series_get ?lv c = Inr v) ?tickers = ?tickers"
      using tickv by (simp only: filter_id_conv) blast
    then show "map trace_name ?fig = ?tickers"
      using names by (simp only: fo filter_option.case simp_thms)
  qed
  have rl: "reference_lines ?ann reference_specs ?fig = Inr (?fig @
              [\<lparr>trace_name = ''Mean'', trace_x = index ?ann, trace_y = ?cmean,
                 trace_style = DotLine 3 ''black''\<rparr>,
               \<lparr>trace_name = ''Median'', trace_x = index ?ann, trace_y = ?cmedian,
                 trace_style = DotLine 3 ''blue''\<rparr>,
               \<lparr>trace_name = ''Std Dev'', trace_x = index ?ann, trace_y = ?cstd,
                 trace_style = DotLine 3 ''red''\<rparr>,
               \<lparr>trace_name = ''2 Std Dev'', trace_x = index ?ann, trace_y = ?ctwo,
                 trace_style = DotLine 3 ''purple''\<rparr>])"
    by (rule reference_lines_eval[OF g])
  have run: "run fm show_table fo price_df =
       Inr \<lparr>warning = None,
            table = (if show_table then Some (tail50 ?ann) else None),
            chart = Some (?fig @
              [\<lparr>trace_name = ''Mean'', trace_x = index ?ann, trace_y = ?cmean,
                 trace_style = DotLine 3 ''black''\<rparr>,
               \<lparr>trace_name = ''Median'', trace_x = index ?ann, trace_y = ?cmedian,
                 trace_style = DotLine 3 ''blue''\<rparr>,
               \<lparr>trace_name = ''Std Dev'', trace_x = index ?ann, trace_y = ?cstd,
                 trace_style = DotLine 3 ''red''\<rparr>,
               \<lparr>trace_name = ''2 Std Dev'', trace_x = index ?ann, trace_y = ?ctwo,
                 trace_style = DotLine 3 ''purple''\<rparr>])\<rparr>"
    unfolding run_def using ne by (simp only: r il sc sl rl if_False sum.case)
  have lv: "?lv = map (\<lambda>nc. (fst nc, snd nc ! ?k)) (columns ?ann)" by (simp only: cols)
  show ?thesis
    apply (rule exI[of _ ?ann], rule exI[of _ ?lv])
    apply (rule exI[of _ "?cmean ! ?k"], rule exI[of _ "?cmedian ! ?k"])
    apply (rule exI[of _ "?cstd ! ?k"], rule exI[of _ "?ctwo ! ?k"])
    apply (rule exI[of _ ?fig])
    apply (rule exI[of _ ?cmean], rule exI[of _ ?cmedian], rule exI[of _ ?cstd], rule exI[of _ ?ctwo])
    apply (intro conjI)
    apply (rule r, rule il, rule lv, rule sc)
    apply (rule sg(1), rule sg(2), rule sg(3), rule sg(4))
    apply (simp only: sc, rule sl)
    apply (simp only: sc, rule names)
    apply (rule all)
    apply (rule g(1), rule g(2), rule g(3), rule g(4))
    apply (rule run)
    done
qed


text \<open>
  Claim C5. For a well-formed price frame that is not empty and whose columns bear no
  statistic's name, the statistics step and the lookups of the loop succeed, the stock
  columns are the price columns, and the stock lines added to the figure are, in column
  order, exactly the stock columns whose cell in the last row is strictly greater
  (\<open>fgt\<close>, false on equal values) than the last-row cell of the statistic of the chosen
  filter: the mean, the median, \<^verbatim>\<open>std\<close> or \<^verbatim>\<open>2std\<close>. With the filter for all stocks
  every stock column is drawn.
\<close>

theorem stock_lines_classification:
  assumes "wf_df price_df" and "\<not> empty_df price_df"
    and "set (map fst (columns price_df)) \<inter> set stats_cols = {}"
  shows "\<exists>df last_vals m md s s2 fig.
     total_pct_df_stats (total_pct_df fm price_df) = Inr df
   \<and> iloc_last df = Inr last_vals
   \<and> last_vals = map (\<lambda>nc. (fst nc, snd nc ! (length (index price_df) - 1))) (columns df)
   \<and> stock_cols df = map fst (columns price_df)
   \<and> series_get last_vals ''mean_pct_chg'' = Inr m
   \<and> series_get last_vals ''median_pct_change'' = Inr md
   \<and> series_get last_vals ''std'' = Inr s
   \<and> series_get last_vals ''2std'' = Inr s2
   \<and> stock_lines fo df last_vals (stock_cols df) [] = Inr fig
   \<and> map trace_name fig =
       filter (\<lambda>c. \<exists>v. series_get last_vals c = Inr v \<and>
                 (case fo of AllStocks \<Rightarrow> True | AboveMean \<Rightarrow> fgt v m | AboveMedian \<Rightarrow> fgt v md
                  | AboveStd \<Rightarrow> fgt v s | Above2Std \<Rightarrow> fgt v s2))
         (stock_cols df)
   \<and> (fo = AllStocks \<longrightarrow> map trace_name fig = map fst (columns price_df))"
  using run_steps [OF assms(2,3), of fm fo] by blast

text \<open>
  Claim C6. Under the same conditions the chart of the run is, for every filter, the
  stock lines that passed the filter followed by the four reference lines Mean, Median,
  Std Dev and 2 Std Dev, in this order, holding the four statistic columns.
\<close>

theorem reference_lines_always_appended:
  assumes "wf_df price_df" and "\<not> empty_df price_df"
    and "set (map fst (columns price_df)) \<inter> set stats_cols = {}"
  shows "\<exists>df last_vals fig cm cmd cs cs2.
     total_pct_df_stats (total_pct_df fm price_df) = Inr df
   \<and> iloc_last df = Inr last_vals
   \<and> stock_lines fo df last_vals (stock_cols df) [] = Inr fig
   \<and> getitem df ''mean_pct_chg'' = Inr cm
   \<and> getitem df ''median_pct_change'' = Inr cmd
   \<and> getitem df ''std'' = Inr cs
   \<and> getitem df ''2std'' = Inr cs2
   \<and> run fm show_table fo price_df =
       Inr \<lparr>warning = None,
            table = (if show_table then Some (tail50 df) else None),
            chart = Some (fig @
              [\<lparr>trace_name = ''Mean'', trace_x = index df, trace_y = cm,
                 trace_style = DotLine 3 ''black''\<rparr>,
               \<lparr>trace_name = ''Median'', trace_x = index df, trace_y = cmd,
                 trace_style = DotLine 3 ''blue''\<rparr>,
               \<lparr>trace_name = ''Std Dev'', trace_x = index df, trace_y = cs,
                 trace_style = DotLine 3 ''red''\<rparr>,
               \<lparr>trace_name = ''2 Std Dev'', trace_x = index df, trace_y = cs2,
                 trace_style = DotLine 3 ''purple''\<rparr>])\<rparr>"
  using run_steps [OF assms(2,3), of fm fo show_table] by blast

lemma sqrt_100: "sqrt 100 = 10"
  by (rule real_sqrt_unique) simp_all

lemma example_total_pct_df:
  "total_pct_df Pad \<lparr>index = [0, 1], columns = [(''A.NS'', [Fin 100, Fin 110]),
        (''B.NS'', [Fin 50, Fin 45]), (''C.NS'', [Fin 10, Fin 10])]\<rparr>
   = \<lparr>index = [0, 1], columns = [(''A.NS'', [Fin 0, Fin 10]),
        (''B.NS'', [Fin 0, Fin (- 10)]), (''C.NS'', [Fin 0, Fin 0])]\<rparr>"
  by (simp add: total_pct_df_def pct_df_def map_columns_def pct_col_def fillna_def
      pct_change_col_def shift1_def ffill_def fsub_def total_pct_col_def cumprod_def Let_def)

lemma example_total_pct_df_stats:
  "total_pct_df_stats \<lparr>index = [0, 1], columns = [(''A.NS'', [Fin 0, Fin 10]),
        (''B.NS'', [Fin 0, Fin (- 10)]), (''C.NS'', [Fin 0, Fin 0])]\<rparr>
   = Inr \<lparr>index = [0, 1], columns = [(''A.NS'', [Fin 0, Fin 10]),
        (''B.NS'', [Fin 0, Fin (- 10)]), (''C.NS'', [Fin 0, Fin 0]),
        (''mean_pct_chg'', [Fin 0, Fin 0]), (''median_pct_change'', [Fin 0, Fin 0]),
        (''std'', [Fin 0, Fin 10]), (''2std'', [Fin 0, Fin 20])]\<rparr>"
  by (simp add: total_pct_df_stats_def setitem_def drop_columns_def getitem_def
      mean_axis1_def median_axis1_def std_axis1_def reduce_axis1_def row_at_def
      nanmean_def nanmedian_def nanstd_def nanvar_def dropna_def fsum_def fsort_def fsub_def
      Let_def numeral_3_eq_3[symmetric] sqrt_100)

theorem stock_lines_classification_witness:
  "wf_df \<lparr>index = [0, 1], columns = [(''A.NS'', [Fin 100, Fin 110]),
        (''B.NS'', [Fin 50, Fin 45]), (''C.NS'', [Fin 10, Fin 10])]\<rparr>
   \<and> \<not> empty_df \<lparr>index = [0, 1], columns = [(''A.NS'', [Fin 100, Fin 110]),
        (''B.NS'', [Fin 50, Fin 45]), (''C.NS'', [Fin 10, Fin 10])]\<rparr>
   \<and> set (map fst (columns \<lparr>index = [0, 1], columns = [(''A.NS'', [Fin 100, Fin 110]),
        (''B.NS'', [Fin 50, Fin 45]), (''C.NS'', [Fin 10, Fin 10])]\<rparr>)) \<inter> set stats_cols = {}
   \<and> (\<exists>df last_vals fig.
        total_pct_df_stats (total_pct_df Pad \<lparr>index = [0, 1],
          columns = [(''A.NS'', [Fin 100, Fin 110]), (''B.NS'', [Fin 50, Fin 45]),
            (''C.NS'', [Fin 10, Fin 10])]\<rparr>) = Inr df
      \<and> iloc_last df = Inr last_vals
      \<and> series_get last_vals ''mean_pct_chg'' = Inr (Fin 0)
      \<and> stock_lines AboveMean df last_vals (stock_cols df) [] = Inr fig
      \<and> map trace_name fig = [''A.NS''])"
proof -
  let ?p = "\<lparr>index = [0, 1::nat], columns = [(''A.NS'', [Fin 100, Fin 110]),
        (''B.NS'', [Fin 50, Fin 45]), (''C.NS'', [Fin 10, Fin 10])]\<rparr>"
  have w: "wf_df ?p" by (simp add: wf_df_def)
  have e: "\<not> empty_df ?p" by (simp add: empty_df_def)
  have h: "set (map fst (columns ?p)) \<inter> set stats_cols = {}" by (simp add: stats_cols_def)
  from stock_lines_classification [OF w e h, of Pad AboveMean]
  obtain df last_vals m md s s2 fig where
    df: "total_pct_df_stats (total_pct_df Pad ?p) = Inr df"
    and il: "iloc_last df = Inr last_vals"
    and lv: "last_vals = map (\<lambda>nc. (fst nc, snd nc ! (length (index ?p) - 1))) (columns df)"
    and sc: "stock_cols df = map fst (columns ?p)"
    and m: "series_get last_vals ''mean_pct_chg'' = Inr m"
    and sl: "stock_lines AboveMean df last_vals (stock_cols df) [] = Inr fig"
    and names: "map trace_name fig =
       filter (\<lambda>c. \<exists>v. series_get last_vals c = Inr v \<and>
                 (case AboveMean of AllStocks \<Rightarrow> True | AboveMean \<Rightarrow> fgt v m
                  | AboveMedian \<Rightarrow> fgt v md | AboveStd \<Rightarrow> fgt v s | Above2Std \<Rightarrow> fgt v s2))
         (stock_cols df)"
    by blast
  have dfv: "df = \<lparr>index = [0, 1], columns = [(''A.NS'', [Fin 0, Fin 10]),
        (''B.NS'', [Fin 0, Fin (- 10)]), (''C.NS'', [Fin 0, Fin 0]),
        (''mean_pct_chg'', [Fin 0, Fin 0]), (''median_pct_change'', [Fin 0, Fin 0]),
        (''std'', [Fin 0, Fin 10]), (''2std'', [Fin 0, Fin 20])]\<rparr>"
    using df unfolding example_total_pct_df example_total_pct_df_stats by simp
  have lvv: "last_vals = [(''A.NS'', Fin 10), (''B.NS'', Fin (- 10)), (''C.NS'', Fin 0),
        (''mean_pct_chg'', Fin 0), (''median_pct_change'', Fin 0),
        (''std'', Fin 10), (''2std'', Fin 20)]"
    unfolding lv dfv by simp
  have mv: "m = Fin 0" using m unfolding lvv by (simp add: series_get_def)
  have nm: "map trace_name fig = [''A.NS'']"
    unfolding names sc unfolding lvv mv by (simp add: series_get_def)
  have m0: "series_get last_vals ''mean_pct_chg'' = Inr (Fin 0)"
    using m mv by simp
  have ex: "\<exists>df last_vals fig.
        total_pct_df_stats (total_pct_df Pad ?p) = Inr df
      \<and> iloc_last df = Inr last_vals
      \<and> series_get last_vals ''mean_pct_chg'' = Inr (Fin 0)
      \<and> stock_lines AboveMean df last_vals (stock_cols df) [] = Inr fig
      \<and> map trace_name fig = [''A.NS'']"
    using df il m0 sl nm by (intro exI conjI)
  show ?thesis using w e h ex by (intro conjI)
qed

theorem reference_lines_always_appended_witness:
  "wf_df \<lparr>index = [0, 1], columns = [(''A.NS'', [Fin 100, Fin 110]),
        (''B.NS'', [Fin 50, Fin 45])]\<rparr>
   \<and> \<not> empty_df \<lparr>index = [0, 1], columns = [(''A.NS'', [Fin 100, Fin 110]),
        (''B.NS'', [Fin 50, Fin 45])]\<rparr>
   \<and> set (map fst (columns \<lparr>index = [0, 1], columns = [(''A.NS'', [Fin 100, Fin 110]),
        (''B.NS'', [Fin 50, Fin 45])]\<rparr>)) \<inter> set stats_cols = {}
   \<and> (\<exists>pg fig. run NoFill True Above2Std \<lparr>index = [0, 1], columns = [(''A.NS'', [Fin 100, Fin 110]),
        (''B.NS'', [Fin 50, Fin 45])]\<rparr> = Inr pg
      \<and> chart pg = Some fig
      \<and> map trace_name (drop (length fig - 4) fig) = [''Mean'', ''Median'', ''Std Dev'', ''2 Std Dev''])"
proof -
  let ?p = "\<lparr>index = [0, 1::nat], columns = [(''A.NS'', [Fin 100, Fin 110]),
        (''B.NS'', [Fin 50, Fin 45])]\<rparr>"
  have w: "wf_df ?p" by (simp add: wf_df_def)
  have e: "\<not> empty_df ?p" by (simp add: empty_df_def)
  have h: "set (map fst (columns ?p)) \<inter> set stats_cols = {}" by (simp add: stats_cols_def)
  from reference_lines_always_appended [OF w e h, of NoFill Above2Std True]
  obtain df fig cm cmd cs cs2 where
    "run NoFill True Above2Std ?p =
       Inr \<lparr>warning = None,
            table = (if True then Some (tail50 df) else None),
            chart = Some (fig @
              [\<lparr>trace_name = ''Mean'', trace_x = index df, trace_y = cm,
                 trace_style = DotLine 3 ''black''\<rparr>,
               \<lparr>trace_name = ''Median'', trace_x = index df, trace_y = cmd,
                 trace_style = DotLine 3 ''blue''\<rparr>,
               \<lparr>trace_name = ''Std Dev'', trace_x = index df, trace_y = cs,
                 trace_style = DotLine 3 ''red''\<rparr>,
               \<lparr>trace_name = ''2 Std Dev'', trace_x = index df, trace_y = cs2,
                 trace_style = DotLine 3 ''purple''\<rparr>])\<rparr>"
    by blast
  then show ?thesis using w e h by simp
qed

lemma ffill_latest:
  "k \<le> j \<Longrightarrow> j < length xs \<Longrightarrow> \<not> isna (xs ! k) \<Longrightarrow>
   (\<forall>i. k < i \<and> i \<le> j \<longrightarrow> isna (xs ! i)) \<Longrightarrow> ffill xs ! j = xs ! k"
proof (induction j)
  case 0
  then show ?case by (simp add: ffill_nth_present)
next
  case (Suc j)
  show ?case
  proof (cases "k = Suc j")
    case True
    then show ?thesis using Suc.prems by (simp add: ffill_nth_present)
  next
    case False
    then have kj: "k \<le> j" using Suc.prems(1) by simp
    have miss: "isna (xs ! Suc j)" using Suc.prems(4) kj by simp
    have "ffill xs ! Suc j = ffill xs ! j"
      using ffill_nth_missing[of "Suc j" xs] Suc.prems(2) miss by simp
    also have "\<dots> = xs ! k" using Suc.IH kj Suc.prems by simp
    finally show ?thesis .
  qed
qed

lemma ffill_all_missing:
  "j < length xs \<Longrightarrow> (\<forall>i. i \<le> j \<longrightarrow> isna (xs ! i)) \<Longrightarrow> ffill xs ! j = NaN"
proof (induction j)
  case 0
  then show ?case by (simp add: ffill_def ffill_from_nth)
next
  case (Suc j)
  have "ffill xs ! Suc j = ffill xs ! j"
    using ffill_nth_missing[of "Suc j" xs] Suc.prems by simp
  then show ?case using Suc by simp
qed

text \<open>
  In the model's exact arithmetic the quotient minus one is the relative price change.
\<close>

lemma daily_return_exact:
  "p \<noteq> 0 \<Longrightarrow> fsub (fdiv (Fin q) (Fin p)) (Fin 1) = Fin ((q - p) / p)"
  by (simp add: fsub_def diff_divide_distrib)

text \<open>
  Claim C1, as the code has it. For a column and a date \<open>t\<close> after the first:
  \<^item> when both prices are present and the prior price is not zero, the daily return is
    the quotient \<open>price[t] / price[t-1]\<close> minus 1, whichever the fill method; in exact
    arithmetic that is \<open>(price[t] - price[t-1]) / price[t-1]\<close>;
  \<^item> when the price at \<open>t\<close> is missing the return is 0;
  \<^item> when the prior price is missing and nothing is filled, the return is 0;
  \<^item> under \<^verbatim>\<open>pad\<close>, a present price at \<open>t\<close> is measured against the latest present
    price before \<open>t\<close>, however many missing cells lie between (NaN results become 0),
    and the return is 0 when no price before \<open>t\<close> is present;
  \<^item> when both prices are zero the return is 0;
  \<^item> a zero prior price before a nonzero price gives an infinite return, of the sign of
    that price.
\<close>

theorem pct_col_daily_return:
  assumes "0 < t" and "t < length col"
  shows "(\<forall>p q. col ! (t - 1) = Fin p \<and> col ! t = Fin q \<and> p \<noteq> 0 \<longrightarrow>
            pct_col fm col ! t = fsub (fdiv (Fin q) (Fin p)) (Fin 1)
            \<and> fsub (fdiv (Fin q) (Fin p)) (Fin 1) = Fin ((q - p) / p))
       \<and> (col ! t = NaN \<longrightarrow> pct_col fm col ! t = Fin 0)
       \<and> (col ! (t - 1) = NaN \<longrightarrow> pct_col NoFill col ! t = Fin 0)
       \<and> (\<forall>k. k < t \<and> \<not> isna (col ! k) \<and> (\<forall>i. k < i \<and> i < t \<longrightarrow> isna (col ! i))
              \<and> \<not> isna (col ! t) \<longrightarrow>
            pct_col Pad col ! t =
              (let r = fsub (fdiv (col ! t) (col ! k)) (Fin 1) in if isna r then Fin 0 else r))
       \<and> ((\<forall>i. i < t \<longrightarrow> isna (col ! i)) \<longrightarrow> pct_col Pad col ! t = Fin 0)
       \<and> (col ! (t - 1) = Fin 0 \<and> col ! t = Fin 0 \<longrightarrow> pct_col fm col ! t = Fin 0)
       \<and> (\<forall>q. col ! (t - 1) = Fin 0 \<and> col ! t = Fin q \<and> q \<noteq> 0 \<longrightarrow>
            pct_col fm col ! t = (if 0 < q then PInf else NInf))"
proof -
  from assms have t1: "t - 1 < length col" by simp
  have present: "ffill col ! t = col ! t \<and> ffill col ! (t - 1) = col ! (t - 1)"
    if "col ! (t - 1) = Fin p" "col ! t = Fin q" for p q
    using that assms t1 by (simp add: ffill_nth_present)
  have A: "pct_col fm col ! t = fsub (fdiv (Fin q) (Fin p)) (Fin 1)
            \<and> fsub (fdiv (Fin q) (Fin p)) (Fin 1) = Fin ((q - p) / p)"
    if "col ! (t - 1) = Fin p" "col ! t = Fin q" "p \<noteq> 0" for p q
    using that present[OF that(1,2)] assms
    by (cases fm) (simp_all add: pct_col_nth shift1_nth fsub_def Let_def diff_divide_distrib)
  have B: "pct_col fm col ! t = Fin 0" if "col ! t = NaN"
  proof (cases fm)
    case NoFill
    then show ?thesis using that assms by (simp add: pct_col_nth fsub_def Let_def)
  next
    case Pad
    have "ffill col ! t = ffill col ! (t - 1)"
      using that assms by (simp add: ffill_nth_missing)
    then show ?thesis using Pad assms fdiv_self_sub1[of "ffill col ! (t - 1)"]
      by (auto simp: pct_col_nth shift1_nth Let_def)
  qed
  have C: "pct_col NoFill col ! t = Fin 0" if "col ! (t - 1) = NaN"
    using that assms by (simp add: pct_col_nth shift1_nth fsub_def Let_def)
  have P1: "pct_col Pad col ! t =
              (let r = fsub (fdiv (col ! t) (col ! k)) (Fin 1) in if isna r then Fin 0 else r)"
    if "k < t" "\<not> isna (col ! k)" "\<forall>i. k < i \<and> i < t \<longrightarrow> isna (col ! i)" "\<not> isna (col ! t)"
    for k
  proof -
    have cur: "ffill col ! t = col ! t"
      using that(4) assms by (simp add: ffill_nth_present)
    have gap: "\<forall>i. k < i \<and> i \<le> t - 1 \<longrightarrow> isna (col ! i)"
      using that(3) assms(1) by auto
    have prev: "ffill col ! (t - 1) = col ! k"
      by (rule ffill_latest[OF _ t1 that(2) gap]) (use that(1) in simp)
    show ?thesis using assms cur prev by (simp add: pct_col_nth shift1_nth Let_def)
  qed
  have P2: "pct_col Pad col ! t = Fin 0" if "\<forall>i. i < t \<longrightarrow> isna (col ! i)"
  proof -
    have "\<forall>i. i \<le> t - 1 \<longrightarrow> isna (col ! i)" using that assms(1) by auto
    then have "ffill col ! (t - 1) = NaN" by (rule ffill_all_missing[OF t1])
    then show ?thesis using assms by (simp add: pct_col_nth shift1_nth fsub_def Let_def)
  qed
  have D: "pct_col fm col ! t = Fin 0" if "col ! (t - 1) = Fin 0" "col ! t = Fin 0"
    using that present[OF that] assms
    by (cases fm) (simp_all add: pct_col_nth shift1_nth fsub_def Let_def inf_of_sign_def)
  have E: "pct_col fm col ! t = (if 0 < q then PInf else NInf)"
    if "col ! (t - 1) = Fin 0" "col ! t = Fin q" "q \<noteq> 0" for q
    using that present[OF that(1,2)] assms
    by (cases fm) (simp_all add: pct_col_nth shift1_nth fsub_def Let_def inf_of_sign_def)
  show ?thesis using A B C P1 P2 D E by blast
qed

text \<open>
  Claim C1 as stated fails in two ways. After a zero price, a price of 5 has an infinite
  return, not 0, whichever fill method \<^verbatim>\<open>pct_change\<close> uses. And under \<^verbatim>\<open>pad\<close> a
  missing prior price does not give 0: after 100 and a missing cell, the price 150 has
  the return 1/2.
\<close>

theorem pct_col_zero_prior_counterexample:
  "pct_col NoFill [Fin 0, Fin 5] ! 1 = PInf \<and> pct_col Pad [Fin 0, Fin 5] ! 1 = PInf
   \<and> pct_col Pad [Fin 100, NaN, Fin 150] ! 2 = Fin (1 / 2)"
  by (simp add: pct_col_def fillna_def pct_change_col_def shift1_def ffill_def fsub_def
      inf_of_sign_def Let_def)

theorem pct_col_daily_return_witness:
  "pct_col Pad [Fin 100, Fin 150, NaN, Fin 0, Fin 0, Fin 5] ! 1 = Fin (1 / 2)
   \<and> pct_col Pad [Fin 100, Fin 150, NaN, Fin 0, Fin 0, Fin 5] ! 2 = Fin 0
   \<and> pct_col NoFill [Fin 100, Fin 150, NaN, Fin 0, Fin 0, Fin 5] ! 3 = Fin 0
   \<and> pct_col NoFill [Fin 100, Fin 150, NaN, Fin 0, Fin 0, Fin 5] ! 4 = Fin 0
   \<and> pct_col Pad [Fin 100, Fin 150, NaN, Fin 0, Fin 0, Fin 5] ! 5 = PInf
   \<and> pct_col Pad [Fin 100, NaN, Fin 150] ! 2 = Fin (1 / 2)
   \<and> pct_col Pad [NaN, NaN, Fin 5] ! 2 = Fin 0"
proof -
  let ?c = "[Fin 100, Fin 150, NaN, Fin 0, Fin 0, Fin 5]"
  have a: "pct_col Pad ?c ! 1 = Fin (1 / 2)"
    using pct_col_daily_return [of 1 ?c Pad] by simp
  have b: "pct_col Pad ?c ! 2 = Fin 0"
    using pct_col_daily_return [of 2 ?c Pad] by simp
  have c: "pct_col NoFill ?c ! 3 = Fin 0"
    using pct_col_daily_return [of 3 ?c NoFill] by simp
  have d: "pct_col NoFill ?c ! 4 = Fin 0"
    using pct_col_daily_return [of 4 ?c NoFill] by simp
  have e: "pct_col Pad ?c ! 5 = PInf"
    using pct_col_daily_return [of 5 ?c Pad] by simp
  have gap: "\<forall>i. (0::nat) < i \<and> i < 2 \<longrightarrow> isna ([Fin 100, NaN, Fin 150] ! i)"
    by (auto simp: less_Suc_eq numeral_2_eq_2)
  have f: "pct_col Pad [Fin 100, NaN, Fin 150] ! 2 = Fin (1 / 2)"
    using pct_col_daily_return [of 2 "[Fin 100, NaN, Fin 150]" Pad,
        THEN conjunct2, THEN conjunct2, THEN conjunct2, THEN conjunct1, THEN spec, of 0] gap
    by (simp add: fsub_def)
  have lead: "\<forall>i. i < (2::nat) \<longrightarrow> isna ([NaN, NaN, Fin 5] ! i)"
    by (auto simp: less_Suc_eq numeral_2_eq_2)
  have g: "pct_col Pad [NaN, NaN, Fin 5] ! 2 = Fin 0"
    using pct_col_daily_return [of 2 "[NaN, NaN, Fin 5]" Pad,
        THEN conjunct2, THEN conjunct2, THEN conjunct2, THEN conjunct2, THEN conjunct1] lead
    by simp
  show ?thesis using a b c d e f g by (intro conjI)
qed




lemma set_insert_desc [simp]: "set (insert_desc r xs) = insert r (set xs)"
  by (induction xs) auto

lemma length_insert_desc [simp]: "length (insert_desc r xs) = Suc (length xs)"
  by (induction xs) auto


lemma set_sort_values_desc [simp]: "set (sort_values_desc xs) = set xs"
  by (induction xs) (simp_all add: sort_values_desc_def)

lemma length_sort_values_desc [simp]: "length (sort_values_desc xs) = length xs"
  by (induction xs) (simp_all add: sort_values_desc_def)








text \<open>
  With the string dtype a missing cell of a text column makes line 32 raise, whatever
  the market caps are.
\<close>

lemma fillna_rows_missing_text:
  "r \<in> set rows \<Longrightarrow> missing_text (SYMBOL r) \<or> list_ex missing_text (other_text r) \<Longrightarrow>
   stock_mcap_df StringDtype rows = Inl TypeError"
proof -
  assume r: "r \<in> set rows" and m: "missing_text (SYMBOL r) \<or> list_ex missing_text (other_text r)"
  have texts: "list_ex missing_text cs \<Longrightarrow> fillna_texts StringDtype cs = Inl TypeError" for cs
    by (induction cs) (auto simp: fillna_text_def split: sum.splits)
  have row: "fillna_row StringDtype r = Inl TypeError"
    using m texts[of "other_text r"] by (auto simp: fillna_row_def fillna_text_def split: sum.splits)
  have every: "fillna_row StringDtype x = Inl e \<Longrightarrow> e = TypeError" for x e
  proof -
    have "fillna_texts StringDtype cs = Inl e \<Longrightarrow> e = TypeError" for cs
      by (induction cs) (auto simp: fillna_text_def split: sum.splits if_splits)
    then show "fillna_row StringDtype x = Inl e \<Longrightarrow> e = TypeError"
      by (auto simp: fillna_row_def fillna_text_def split: sum.splits if_splits)
  qed
  have "fillna_rows StringDtype rows = Inl TypeError" using r
  proof (induction rows)
    case Nil
    then show ?case by simp
  next
    case (Cons x xs)
    show ?case
    proof (cases "fillna_row StringDtype x")
      case (Inl e)
      then show ?thesis using every[OF Inl] by simp
    next
      case (Inr x')
      then have "x \<noteq> r" using row by auto
      then have "r \<in> set xs" using Cons.prems by simp
      then show ?thesis using Cons.IH Inr by simp
    qed
  qed
  then show ?thesis by (simp add: stock_mcap_df_def)
qed












text \<open>
  The symbols of line 60 all end in \<^verbatim>\<open>.NS\<close>, so none of them is the name of a
  statistic column: a price frame whose columns are among the requested symbols meets
  the condition on column names used above.
\<close>

lemma symbols_not_stats:
  "symbols grp = Inr ss \<Longrightarrow> set ss \<inter> set stats_cols = {}"
proof (induction grp arbitrary: ss)
  case Nil
  then show ?case by simp
next
  case (Cons r rs)
  then obtain s ss' where s: "SYMBOL r = Str s" and ss': "symbols rs = Inr ss'"
    and ss: "ss = (s @ ''.NS'') # ss'"
    by (auto split: obj.splits sum.splits)
  have "last (s @ ''.NS'') = CHR ''S''" by simp
  moreover have "\<forall>n \<in> set stats_cols. last n \<noteq> CHR ''S''" by (simp add: stats_cols_def)
  ultimately have "s @ ''.NS'' \<notin> set stats_cols" by metis
  then show ?case using Cons.IH[OF ss'] ss by simp
qed

lemma dashboard_columns_fresh:
  assumes "stock_mcap_df td rows = Inr df"
    and "symbols (df_group group_no df) = Inr syms"
    and "set (map fst (columns (download syms))) \<subseteq> set syms"
  shows "set (map fst (columns (download syms))) \<inter> set stats_cols = {}"
    and "dashboard download td fm rows group_no show_table fo =
           run fm show_table fo (download syms)"
  using symbols_not_stats[OF assms(2)] assms by (auto simp: dashboard_def)

end
